theory Spec2Isabelle
  imports Main "HOL-Library.Word" "HOL-Library.Monad_Syntax"
begin

unbundle bit_operations_syntax

section \<open>The operating system as seen by the code\<close>

text \<open>
  The two subsystems (Memory.cpp, and Program.cpp inside SystemError.cpp) are sequences of
  operating-system calls with decisions taken on what each call returns. A call is a
  request; what the system answers is a \<open>response\<close>: the returned number, the value
  the call leaves in the thread's error variable (\<open>errno\<close> on POSIX, the last-error code on
  Windows) when it sets one, and up to three output parameters.

  The state threaded through the code holds the answers the system is going to give, in
  call order (\<open>pending\<close>), the calls made so far (\<open>calls\<close>) and the error variable.
  Every call takes the next answer. When no answer is left the call does not return, and
  neither does the function that made it: the value is \<open>None\<close>.
\<close>

type_synonym size_t = "64 word"

datatype rlimit_resource = RLIMIT_DATA | RLIMIT_RSS | RLIMIT_AS

datatype sig_handler = TimeOutHandler | Old

text \<open>The calls of Memory.cpp on POSIX.\<close>

datatype mmap_request =
    Mmap size_t size_t int int int int
  | Munmap size_t size_t
  | Mprotect size_t size_t int
  | InvalidateInstructionCache size_t size_t

text \<open>The calls of Memory.cpp on Windows.\<close>

datatype virtual_request =
    VirtualAlloc size_t size_t "32 word" "32 word"
  | VirtualFree size_t size_t "32 word"
  | VirtualProtect size_t size_t "32 word"
  | FlushInstructionCache size_t size_t

text \<open>The calls of Program.cpp on POSIX (\<open>WaitAny\<close> is \<open>wait(&status)\<close>).\<close>

datatype posix_request =
    Access string int
  | FileActionsInit
  | FileActionsAddOpen int string int int
  | FileActionsAddDup2 int int
  | FileActionsDestroy
  | PosixSpawn string bool "string list" "string list"
  | Fork
  | Open string int int
  | Dup2 int int
  | Close int
  | Getrlimit rlimit_resource
  | Setrlimit rlimit_resource "64 word"
  | Execve string "string list" "string list"
  | Execv string "string list"
  | Sigaction int sig_handler
  | Alarm "32 word"
  | Waitpid int int
  | Kill int int
  | WaitAny

text \<open>The calls of Program.cpp on Windows.\<close>

datatype win_request =
    MultiByteToWideChar string int
  | GetFileAttributesW string
  | GetOsfHandle int
  | DuplicateHandle int
  | CreateFileA string "32 word" "32 word" "32 word"
  | CloseHandle int
  | Fflush int
  | CreateProcessA string "string list" "string list option" int int int
  | CreateJobObject
  | SetInformationJobObject int "64 word"
  | AssignProcessToJobObject int int
  | TerminateProcess int int
  | WaitForSingleObject int "32 word"
  | GetExitCodeProcess int

record response =
  ret :: int
  sets_err :: "int option"
  out :: int
  out2 :: int
  out3 :: int

text \<open>An answer that returns \<open>v\<close>, leaves the error variable alone and writes nothing.\<close>

definition answer :: "int \<Rightarrow> response" where
  "answer v = \<lparr>ret = v, sets_err = None, out = 0, out2 = 0, out3 = 0\<rparr>"

record 'c os_state =
  pending :: "response list"
  calls :: "'c list"
  errno :: int

definition sys :: "'c \<Rightarrow> 'c os_state \<Rightarrow> (response \<times> 'c os_state) option" where
  "sys rq st =
     (case pending st of
        [] \<Rightarrow> None
      | r # rs \<Rightarrow>
          Some (r, st\<lparr>pending := rs, calls := calls st @ [rq],
                       errno := (case sets_err r of None \<Rightarrow> errno st | Some e \<Rightarrow> e)\<rparr>))"

text \<open>A step of the program's own that the log records but the system does not answer.\<close>

definition emit :: "'c \<Rightarrow> 'c os_state \<Rightarrow> 'c os_state" where
  "emit rq st = st\<lparr>calls := calls st @ [rq]\<rparr>"

text \<open>
  A function of the source either returns to its caller or ends the process: through
  \<open>FatalError::Die\<close> (FatalError.hpp: the installed handler, then \<open>exit(1)\<close>), through
  \<open>_exit\<close>, or because \<open>execve\<close> replaced the program.
\<close>

datatype 'a outcome = Returns 'a | Died string | Exited int | Execed

section \<open>Error codes and memory blocks\<close>

text \<open>
  Modelled from the spec: SystemError.hpp and Memory.hpp are not among the sources. An
  \<open>error_code\<close> is the pair of a number and a category, and \<open>success\<close> has the number 0;
  a \<open>MemoryBlock\<close> is a base address and a size, and the default-constructed block is the
  empty block (null base address, zero size); the protection flags are a bitmask over
  readable, writable and executable, three distinct bits.
\<close>

datatype error_category = generic_category | system_category

datatype error_code = error_code int error_category

definition success :: error_code where
  "success = error_code 0 system_category"

record MemoryBlock =
  Address :: size_t
  Size :: size_t

definition MemoryBlock0 :: MemoryBlock where
  "MemoryBlock0 = \<lparr>Address = 0, Size = 0\<rparr>"

definition MF_READ :: "32 word" where "MF_READ = 0x1000000"
definition MF_WRITE :: "32 word" where "MF_WRITE = 0x2000000"
definition MF_EXEC :: "32 word" where "MF_EXEC = 0x4000000"

definition EINVAL :: int where "EINVAL = 22"

section \<open>Memory.cpp, the POSIX backend\<close>

text \<open>The protection bits of \<open>sys/mman.h\<close> and the failure value of \<open>mmap\<close>.\<close>

definition PROT_NONE :: int where "PROT_NONE = 0"
definition PROT_READ :: int where "PROT_READ = 1"
definition PROT_WRITE :: int where "PROT_WRITE = 2"
definition PROT_EXEC :: int where "PROT_EXEC = 4"
definition MAP_PRIVATE :: int where "MAP_PRIVATE = 2"
definition MAP_ANONYMOUS :: int where "MAP_ANONYMOUS = 32"
definition MAP_FAILED :: size_t where "MAP_FAILED = - 1"

text \<open>
  \<open>getPosixProtectionFlags\<close>: a switch over the flag word. The parameter \<open>FreeBSD\<close> is
  the preprocessor test \<open>defined(__FreeBSD__)\<close>. The default label calls
  \<open>FatalError::Die\<close>.
\<close>

definition getPosixProtectionFlags :: "bool \<Rightarrow> 32 word \<Rightarrow> string + int" where
  "getPosixProtectionFlags FreeBSD Flags =
     (if Flags = MF_READ then Inr PROT_READ
      else if Flags = MF_WRITE then Inr PROT_WRITE
      else if Flags = MF_READ OR MF_WRITE then Inr (PROT_READ OR PROT_WRITE)
      else if Flags = MF_READ OR MF_EXEC then Inr (PROT_READ OR PROT_EXEC)
      else if Flags = MF_READ OR MF_WRITE OR MF_EXEC
        then Inr (PROT_READ OR PROT_WRITE OR PROT_EXEC)
      else if Flags = MF_EXEC
        then (if FreeBSD then Inr (PROT_READ OR PROT_EXEC) else Inr PROT_EXEC)
      else Inl ''Illegal memory protection flag specified!'')"

text \<open>
  \<open>Memory::allocateMappedMemory\<close>. \<open>PageSize\<close> is the value of
  \<open>process::get_self()->page_size()\<close>. The build modelled is the one without
  \<open>NEED_DEV_ZERO_FOR_MMAP\<close>, so \<open>fd\<close> is -1. The result is the returned block together
  with the error code left in \<open>EC\<close>.
\<close>

function allocateMappedMemory_unix ::
  "bool \<Rightarrow> size_t \<Rightarrow> size_t \<Rightarrow> MemoryBlock option \<Rightarrow> 32 word \<Rightarrow> mmap_request os_state
     \<Rightarrow> ((MemoryBlock \<times> error_code) outcome \<times> mmap_request os_state) option" where
  "allocateMappedMemory_unix FreeBSD PageSize NumBytes NearBlock PFlags st =
     (if NumBytes = 0 then Some (Returns (MemoryBlock0, success), st)
      else
        let NumPages = (NumBytes + PageSize - 1) div PageSize;
            fd = - 1;
            MMFlags = MAP_PRIVATE OR MAP_ANONYMOUS
        in case getPosixProtectionFlags FreeBSD PFlags of
             Inl msg \<Rightarrow> Some (Died msg, st)
           | Inr Protect \<Rightarrow>
               let Start0 = (case NearBlock of
                               Some nb \<Rightarrow> Address nb + Size nb
                             | None \<Rightarrow> 0);
                   Start = (if Start0 \<noteq> 0 \<and> Start0 mod PageSize \<noteq> 0
                            then Start0 + (PageSize - Start0 mod PageSize)
                            else Start0)
               in case sys (Mmap Start (PageSize * NumPages) Protect MMFlags fd 0) st of
                    None \<Rightarrow> None
                  | Some (r, st1) \<Rightarrow>
                      let Addr = (word_of_int (ret r) :: size_t)
                      in if Addr = MAP_FAILED
                         then (if NearBlock \<noteq> None
                               then allocateMappedMemory_unix FreeBSD PageSize NumBytes None
                                      PFlags st1
                               else Some (Returns (MemoryBlock0,
                                            error_code (errno st1) system_category), st1))
                         else
                           let Result = \<lparr>Address = Addr, Size = NumPages * PageSize\<rparr>;
                               st2 = (if PFlags AND MF_EXEC \<noteq> 0
                                      then emit (InvalidateInstructionCache
                                                   (Address Result) (Size Result)) st1
                                      else st1)
                           in Some (Returns (Result, success), st2))"
  by pat_completeness auto
termination
  by (relation "measure (\<lambda>(fb, ps, n, nb, pf, st). case nb of None \<Rightarrow> 0 | Some b \<Rightarrow> Suc 0)")
     auto

text \<open>
  \<open>Memory::releaseMappedMemory\<close>: the block is passed by reference, so the result holds
  the block as the call leaves it.
\<close>

definition releaseMappedMemory_unix ::
  "MemoryBlock \<Rightarrow> mmap_request os_state \<Rightarrow> ((error_code \<times> MemoryBlock) \<times> mmap_request os_state) option" where
  "releaseMappedMemory_unix M st =
     (if Address M = 0 \<or> Size M = 0 then Some ((success, M), st)
      else case sys (Munmap (Address M) (Size M)) st of
             None \<Rightarrow> None
           | Some (r, st1) \<Rightarrow>
               if 0 \<noteq> ret r
               then Some ((error_code (errno st1) system_category, M), st1)
               else Some ((success, M\<lparr>Address := 0, Size := 0\<rparr>), st1))"

definition protectMappedMemory_unix ::
  "bool \<Rightarrow> MemoryBlock \<Rightarrow> 32 word \<Rightarrow> mmap_request os_state \<Rightarrow> (error_code outcome \<times> mmap_request os_state) option" where
  "protectMappedMemory_unix FreeBSD M Flags st =
     (if Address M = 0 \<or> Size M = 0 then Some (Returns success, st)
      else if Flags = 0 then Some (Returns (error_code EINVAL generic_category), st)
      else case getPosixProtectionFlags FreeBSD Flags of
             Inl msg \<Rightarrow> Some (Died msg, st)
           | Inr Protect \<Rightarrow>
               (case sys (Mprotect (Address M) (Size M) Protect) st of
                  None \<Rightarrow> None
                | Some (r, st1) \<Rightarrow>
                    if ret r \<noteq> 0
                    then Some (Returns (error_code (errno st1) system_category), st1)
                    else
                      let st2 = (if Flags AND MF_EXEC \<noteq> 0
                                 then emit (InvalidateInstructionCache (Address M) (Size M)) st1
                                 else st1)
                      in Some (Returns success, st2)))"

section \<open>Memory.cpp, the Windows backend\<close>

text \<open>On Windows the error variable is read with \<open>GetLastError\<close>.\<close>

abbreviation GetLastError :: "'c os_state \<Rightarrow> int" where
  "GetLastError st \<equiv> errno st"

text \<open>The page protection constants and allocation types of \<open>winnt.h\<close>.\<close>

definition PAGE_NOACCESS :: "32 word" where "PAGE_NOACCESS = 0x01"
definition PAGE_READONLY :: "32 word" where "PAGE_READONLY = 0x02"
definition PAGE_READWRITE :: "32 word" where "PAGE_READWRITE = 0x04"
definition PAGE_EXECUTE :: "32 word" where "PAGE_EXECUTE = 0x10"
definition PAGE_EXECUTE_READ :: "32 word" where "PAGE_EXECUTE_READ = 0x20"
definition PAGE_EXECUTE_READWRITE :: "32 word" where "PAGE_EXECUTE_READWRITE = 0x40"
definition MEM_COMMIT :: "32 word" where "MEM_COMMIT = 0x1000"
definition MEM_RESERVE :: "32 word" where "MEM_RESERVE = 0x2000"
definition MEM_RELEASE :: "32 word" where "MEM_RELEASE = 0x8000"

definition getWindowsProtectionFlags :: "32 word \<Rightarrow> string + 32 word" where
  "getWindowsProtectionFlags Flags =
     (if Flags = MF_READ then Inr PAGE_READONLY
      else if Flags = MF_WRITE then Inr PAGE_READWRITE
      else if Flags = MF_READ OR MF_WRITE then Inr PAGE_READWRITE
      else if Flags = MF_READ OR MF_EXEC then Inr PAGE_EXECUTE_READ
      else if Flags = MF_READ OR MF_WRITE OR MF_EXEC then Inr PAGE_EXECUTE_READWRITE
      else if Flags = MF_EXEC then Inr PAGE_EXECUTE
      else Inl ''Illegal memory protection flag specified!'')"

text \<open>\<open>getAllocationGranularity\<close>, on the two fields of \<open>SYSTEM_INFO\<close> it reads.\<close>

definition getAllocationGranularity :: "32 word \<Rightarrow> 32 word \<Rightarrow> size_t" where
  "getAllocationGranularity dwPageSize dwAllocationGranularity =
     (if dwPageSize > dwAllocationGranularity then ucast dwPageSize
      else ucast dwAllocationGranularity)"

function allocateMappedMemory_win ::
  "size_t \<Rightarrow> size_t \<Rightarrow> MemoryBlock option \<Rightarrow> 32 word \<Rightarrow> virtual_request os_state
     \<Rightarrow> ((MemoryBlock \<times> error_code) outcome \<times> virtual_request os_state) option" where
  "allocateMappedMemory_win Granularity NumBytes NearBlock Flags st =
     (if NumBytes = 0 then Some (Returns (MemoryBlock0, success), st)
      else
        let NumBlocks = (NumBytes + Granularity - 1) div Granularity;
            Start0 = (case NearBlock of
                        Some nb \<Rightarrow> Address nb + Size nb
                      | None \<Rightarrow> 0);
            Start = (if Start0 \<noteq> 0 \<and> Start0 mod Granularity \<noteq> 0
                     then Start0 + (Granularity - Start0 mod Granularity)
                     else Start0)
        in case getWindowsProtectionFlags Flags of
             Inl msg \<Rightarrow> Some (Died msg, st)
           | Inr Protect \<Rightarrow>
               (case sys (VirtualAlloc Start (NumBlocks * Granularity)
                            (MEM_RESERVE OR MEM_COMMIT) Protect) st of
                  None \<Rightarrow> None
                | Some (r, st1) \<Rightarrow>
                    let PA = (word_of_int (ret r) :: size_t)
                    in if PA = 0
                       then (if NearBlock \<noteq> None
                             then allocateMappedMemory_win Granularity NumBytes None Flags st1
                             else Some (Returns (MemoryBlock0,
                                          error_code (GetLastError st1) system_category), st1))
                       else
                         let Result = \<lparr>Address = PA, Size = NumBlocks * Granularity\<rparr>
                         in if Flags AND MF_EXEC \<noteq> 0
                            then (case sys (FlushInstructionCache (Address Result)
                                              (Size Result)) st1 of
                                    None \<Rightarrow> None
                                  | Some (r2, st2) \<Rightarrow> Some (Returns (Result, success), st2))
                            else Some (Returns (Result, success), st1)))"
  by pat_completeness auto
termination
  by (relation "measure (\<lambda>(g, n, nb, pf, st). case nb of None \<Rightarrow> 0 | Some b \<Rightarrow> Suc 0)")
     auto

definition releaseMappedMemory_win ::
  "MemoryBlock \<Rightarrow> virtual_request os_state \<Rightarrow> ((error_code \<times> MemoryBlock) \<times> virtual_request os_state) option" where
  "releaseMappedMemory_win M st =
     (if Address M = 0 \<or> Size M = 0 then Some ((success, M), st)
      else case sys (VirtualFree (Address M) 0 MEM_RELEASE) st of
             None \<Rightarrow> None
           | Some (r, st1) \<Rightarrow>
               if ret r = 0
               then Some ((error_code (GetLastError st1) system_category, M), st1)
               else Some ((success, M\<lparr>Address := 0, Size := 0\<rparr>), st1))"

definition protectMappedMemory_win ::
  "MemoryBlock \<Rightarrow> 32 word \<Rightarrow> virtual_request os_state \<Rightarrow> (error_code outcome \<times> virtual_request os_state) option" where
  "protectMappedMemory_win M Flags st =
     (if Address M = 0 \<or> Size M = 0 then Some (Returns success, st)
      else case getWindowsProtectionFlags Flags of
             Inl msg \<Rightarrow> Some (Died msg, st)
           | Inr Protect \<Rightarrow>
               (case sys (VirtualProtect (Address M) (Size M) Protect) st of
                  None \<Rightarrow> None
                | Some (r, st1) \<Rightarrow>
                    if ret r = 0
                    then Some (Returns (error_code (GetLastError st1) system_category), st1)
                    else if Flags AND MF_EXEC \<noteq> 0
                    then (case sys (FlushInstructionCache (Address M) (Size M)) st1 of
                            None \<Rightarrow> None
                          | Some (r2, st2) \<Rightarrow> Some (Returns success, st2))
                    else Some (Returns success, st1)))"

section \<open>Program.cpp, the POSIX backend\<close>

text \<open>
  What the build and the C library fix: the configuration macros the file tests (none of
  them is defined in the sources at hand, so each is a parameter), the message tables of
  \<open>strerror_r\<close> and \<open>strsignal\<close>, and the environment of the calling process.
\<close>

record unix_env =
  HAVE_POSIX_SPAWN :: bool
  HAVE_SYS_WAIT_H :: bool
  HAVE_RLIMITS :: bool
  HAVE_RLIMIT_RSS :: bool
  HAVE_RLIMIT_AS :: bool
  HAVE_WCOREDUMP :: bool
  strerror_r :: "int \<Rightarrow> string"
  strsignal :: "int \<Rightarrow> string"
  environ :: "string list"

text \<open>Numbers of \<open>errno.h\<close>, \<open>signal.h\<close>, \<open>fcntl.h\<close> and \<open>unistd.h\<close> (Linux).\<close>

definition ENOENT :: int where "ENOENT = 2"
definition EINTR :: int where "EINTR = 4"
definition SIGKILL :: int where "SIGKILL = 9"
definition SIGALRM :: int where "SIGALRM = 14"
definition O_RDONLY :: int where "O_RDONLY = 0"
definition O_WRONLY :: int where "O_WRONLY = 1"
definition O_CREAT :: int where "O_CREAT = 64"
definition F_OK :: int where "F_OK = 0"
definition mode_0666 :: int where "mode_0666 = 438"

text \<open>
  The status macros of \<open>sys/wait.h\<close> as glibc defines them: the low seven bits hold the
  terminating signal (0 for a normal exit, 127 for a stopped child), bit 7 the core-dump
  flag, the next byte the exit code.
\<close>

definition WTERMSIG :: "int \<Rightarrow> int" where
  "WTERMSIG status = status AND 0x7f"

definition WEXITSTATUS :: "int \<Rightarrow> int" where
  "WEXITSTATUS status = drop_bit 8 (status AND 0xff00)"

definition WIFEXITED :: "int \<Rightarrow> bool" where
  "WIFEXITED status = (WTERMSIG status = 0)"

definition WIFSIGNALED :: "int \<Rightarrow> bool" where
  "WIFSIGNALED status = (0 < WTERMSIG status \<and> WTERMSIG status < 127)"

definition WCOREDUMP :: "int \<Rightarrow> bool" where
  "WCOREDUMP status = (status AND 0x80 \<noteq> 0)"

text \<open>\<open>StrError(int)\<close> of Errno.cpp and \<open>MakeErrMsg\<close> of Unix.hpp. A \<open>std::string*\<close>
  argument is \<open>None\<close> when the pointer is null and otherwise holds the string pointed to;
  \<open>MakeErrMsg\<close> always returns true, so only the string is returned here.\<close>

definition StrError :: "unix_env \<Rightarrow> int \<Rightarrow> string" where
  "StrError env errnum = (if errnum = 0 then [] else strerror_r env errnum)"

definition MakeErrMsg :: "unix_env \<Rightarrow> string option \<Rightarrow> string \<Rightarrow> int \<Rightarrow> posix_request os_state \<Rightarrow> string option" where
  "MakeErrMsg env ErrMsg prefix errnum st =
     (case ErrMsg of
        None \<Rightarrow> None
      | Some old \<Rightarrow>
          Some (prefix @ '': '' @ StrError env (if errnum = - 1 then errno st else errnum)))"

text \<open>
  \<open>fs::exists(path, result)\<close> of the POSIX part of Path.cpp. \<open>result\<close> is written only
  on the paths that return success: \<open>None\<close> stands for a \<open>result\<close> left as it was.
\<close>

definition exists_unix :: "string \<Rightarrow> posix_request os_state \<Rightarrow> ((error_code \<times> bool option) \<times> posix_request os_state) option" where
  "exists_unix path st =
     do {
       (r, st1) \<leftarrow> sys (Access path F_OK) st;
       if ret r = - 1
       then (if errno st1 \<noteq> ENOENT
             then Some ((error_code (errno st1) system_category, None), st1)
             else Some ((success, Some False), st1))
       else Some ((success, Some True), st1)
     }"

text \<open>The three redirects: \<open>None\<close> when \<open>redirects\<close> is null, else the three pointers of
  the array, each null (\<open>None\<close>) or pointing to a path.\<close>

type_synonym redirects = "(string option \<times> string option \<times> string option) option"

definition RedirectIO :: "unix_env \<Rightarrow> string option \<Rightarrow> int \<Rightarrow> string option \<Rightarrow> posix_request os_state
    \<Rightarrow> ((bool \<times> string option) \<times> posix_request os_state) option" where
  "RedirectIO env Path FD ErrMsg st =
     (case Path of
        None \<Rightarrow> Some ((False, ErrMsg), st)
      | Some p \<Rightarrow>
          let File = (if p = [] then ''/dev/null'' else p)
          in do {
            (r, st1) \<leftarrow> sys (Open File (if FD = 0 then O_RDONLY else O_WRONLY OR O_CREAT) mode_0666) st;
            let InFD = ret r;
            if InFD = - 1
            then Some ((True, MakeErrMsg env ErrMsg
                          (''Cannot open file '' @ [CHR 0x27] @ File @ [CHR 0x27] @ '' for ''
                             @ (if FD = 0 then ''input'' else ''output'')) (- 1) st1), st1)
            else do {
              (r2, st2) \<leftarrow> sys (Dup2 InFD FD) st1;
              if ret r2 = - 1
              then do {
                (r3, st3) \<leftarrow> sys (Close InFD) st2;
                Some ((True, MakeErrMsg env ErrMsg ''Cannot dup2'' (- 1) st2), st3)
              }
              else do {
                (r3, st3) \<leftarrow> sys (Close InFD) st2;
                Some ((False, ErrMsg), st3)
              }
            }
          })"

definition RedirectIO_PS :: "unix_env \<Rightarrow> string option \<Rightarrow> int \<Rightarrow> string option \<Rightarrow> posix_request os_state
    \<Rightarrow> ((bool \<times> string option) \<times> posix_request os_state) option" where
  "RedirectIO_PS env Path FD ErrMsg st =
     (case Path of
        None \<Rightarrow> Some ((False, ErrMsg), st)
      | Some p \<Rightarrow>
          let File = (if p = [] then ''/dev/null'' else p)
          in do {
            (r, st1) \<leftarrow> sys (FileActionsAddOpen FD File
                                 (if FD = 0 then O_RDONLY else O_WRONLY OR O_CREAT) mode_0666) st;
            let Err = ret r;
            if Err \<noteq> 0
            then Some ((True, MakeErrMsg env ErrMsg ''Cannot dup2'' Err st1), st1)
            else Some ((False, ErrMsg), st1)
          })"

text \<open>
  \<open>SetMemoryLimits\<close> (\<open>sz\<close> is its parameter \<open>size\<close>). \<open>HAVE_RLIMITS\<close> is the test
  \<open>HAVE_SYS_RESOURCE_H && HAVE_GETRLIMIT && HAVE_SETRLIMIT\<close>; \<open>HAVE_RLIMIT_AS\<close> is
  \<open>RLIMIT_AS\<close> being defined in a build without a sanitizer.
\<close>

definition SetMemoryLimits :: "unix_env \<Rightarrow> 32 word \<Rightarrow> posix_request os_state \<Rightarrow> posix_request os_state option" where
  "SetMemoryLimits env sz st =
     (if \<not> HAVE_RLIMITS env then Some st
      else
        let limit = (ucast sz :: 64 word) * 1048576
        in do {
          (r1, st1) \<leftarrow> sys (Getrlimit RLIMIT_DATA) st;
          (r2, st2) \<leftarrow> sys (Setrlimit RLIMIT_DATA limit) st1;
          st4 \<leftarrow> (if HAVE_RLIMIT_RSS env
                  then do {
                    (r3, st3) \<leftarrow> sys (Getrlimit RLIMIT_RSS) st2;
                    (r4, st4) \<leftarrow> sys (Setrlimit RLIMIT_RSS limit) st3;
                    Some st4
                  }
                  else Some st2);
          (if HAVE_RLIMIT_AS env
           then do {
             (r5, st5) \<leftarrow> sys (Getrlimit RLIMIT_AS) st4;
             (r6, st6) \<leftarrow> sys (Setrlimit RLIMIT_AS limit) st5;
             Some st6
           }
           else Some st4)
        })"

text \<open>
  \<open>Execute\<close>, in three parts: the redirections of the \<open>posix_spawn\<close> path (the body
  of \<open>if (redirects)\<close> there), the redirections of the forked child, and the function
  itself. The redirection parts return whether \<open>Execute\<close> goes on (false: it returned
  false from inside them). \<open>Data\<close> is \<open>None\<close> for a null \<open>void**\<close> and otherwise
  holds the pointer stored there.
\<close>

definition spawn_redirects :: "unix_env \<Rightarrow> string option \<times> string option \<times> string option
    \<Rightarrow> string option \<Rightarrow> posix_request os_state \<Rightarrow> ((bool \<times> string option) \<times> posix_request os_state) option" where
  "spawn_redirects env R ErrMsg st =
     (case R of (R0, R1, R2) \<Rightarrow>
        do {
          (r, st1) \<leftarrow> sys FileActionsInit st;
          ((failed0, E0), st2) \<leftarrow> RedirectIO_PS env R0 0 ErrMsg st1;
          if failed0 then Some ((False, E0), st2)
          else do {
            ((failed1, E1), st3) \<leftarrow> RedirectIO_PS env R1 1 E0 st2;
            if failed1 then Some ((False, E1), st3)
            else if R1 = None \<or> R2 = None \<or> the R1 \<noteq> the R2
            then do {
              ((failed2, E2), st4) \<leftarrow> RedirectIO_PS env R2 2 E1 st3;
              Some ((\<not> failed2, E2), st4)
            }
            else do {
              (r4, st4) \<leftarrow> sys (FileActionsAddDup2 1 2) st3;
              if ret r4 \<noteq> 0
              then Some ((False, MakeErrMsg env E1 ''Can't redirect stderr to stdout''
                                   (ret r4) st4), st4)
              else Some ((True, E1), st4)
            }
          }
        })"

definition child_redirects :: "unix_env \<Rightarrow> string option \<times> string option \<times> string option
    \<Rightarrow> string option \<Rightarrow> posix_request os_state \<Rightarrow> ((bool \<times> string option) \<times> posix_request os_state) option" where
  "child_redirects env R ErrMsg st =
     (case R of (R0, R1, R2) \<Rightarrow>
        do {
          ((failed0, E0), st1) \<leftarrow> RedirectIO env R0 0 ErrMsg st;
          if failed0 then Some ((False, E0), st1)
          else do {
            ((failed1, E1), st2) \<leftarrow> RedirectIO env R1 1 E0 st1;
            if failed1 then Some ((False, E1), st2)
            else if R1 \<noteq> None \<and> R2 \<noteq> None \<and> the R1 = the R2
            then do {
              (r3, st3) \<leftarrow> sys (Dup2 1 2) st2;
              if ret r3 = - 1
              then Some ((False, MakeErrMsg env E1 ''Can't redirect stderr to stdout''
                                   (- 1) st3), st3)
              else Some ((True, E1), st3)
            }
            else do {
              ((failed2, E2), st3) \<leftarrow> RedirectIO env R2 2 E1 st2;
              Some ((\<not> failed2, E2), st3)
            }
          }
        })"

definition Execute_unix :: "unix_env \<Rightarrow> 64 word option \<Rightarrow> string \<Rightarrow> string list
    \<Rightarrow> string list option \<Rightarrow> redirects \<Rightarrow> 32 word \<Rightarrow> string option \<Rightarrow> posix_request os_state
    \<Rightarrow> ((bool \<times> 64 word option \<times> string option) outcome \<times> posix_request os_state) option" where
  "Execute_unix env Data Program args envp redirects memoryLimit ErrMsg st =
     (if HAVE_POSIX_SPAWN env \<and> memoryLimit = 0
      then do {
        ((go_on, E), st1) \<leftarrow> (case redirects of
                                None \<Rightarrow> Some ((True, ErrMsg), st)
                              | Some R \<Rightarrow> spawn_redirects env R ErrMsg st);
        if \<not> go_on then Some (Returns (False, Data, E), st1)
        else do {
          (r, st2) \<leftarrow> sys (PosixSpawn Program (redirects \<noteq> None) args
                                (case envp of None \<Rightarrow> environ env | Some e \<Rightarrow> e)) st1;
          st3 \<leftarrow> (if redirects \<noteq> None
                  then map_option snd (sys FileActionsDestroy st2)
                  else Some st2);
          if ret r \<noteq> 0
          then Some (Returns (False, Data, MakeErrMsg env E ''posix_spawn failed'' (ret r) st3), st3)
          else Some (Returns (True, map_option (\<lambda>old. word_of_int (out r)) Data, E), st3)
        }
      }
      else do {
        (r, st1) \<leftarrow> sys Fork st;
        if ret r = - 1
        then Some (Returns (False, Data, MakeErrMsg env ErrMsg ''Couldn't fork'' (- 1) st1), st1)
        else if ret r = 0
        then do {
          ((go_on, E), st2) \<leftarrow> (case redirects of
                                  None \<Rightarrow> Some ((True, ErrMsg), st1)
                                | Some R \<Rightarrow> child_redirects env R ErrMsg st1);
          if \<not> go_on then Some (Returns (False, Data, E), st2)
          else do {
            st3 \<leftarrow> (if memoryLimit \<noteq> 0 then SetMemoryLimits env memoryLimit st2 else Some st2);
            (r4, st4) \<leftarrow> (case envp of
                            Some e \<Rightarrow> sys (Execve Program args e) st3
                          | None \<Rightarrow> sys (Execv Program args) st3);
            if ret r4 = - 1
            then Some (Exited (if errno st4 = ENOENT then 127 else 126), st4)
            else Some (Execed, st4)
          }
        }
        else Some (Returns (True, map_option (\<lambda>old. word_of_int (ret r)) Data, ErrMsg), st1)
      })"

text \<open>
  \<open>Wait\<close>, in three parts. \<open>Wait_loop\<close> is the \<open>while (waitpid(...) != child)\<close> loop:
  it yields \<open>Inl v\<close> when the function returns \<open>v\<close> from inside the loop and
  \<open>Inr status\<close> when the loop ends with the child's status. One answer of the system is
  used by each \<open>waitpid\<close>, so the loop is a recursion on the answers left.
  \<open>Wait_status\<close> is the code after the comment "Return the proper exit status".
\<close>

function Wait_loop :: "unix_env \<Rightarrow> int \<Rightarrow> 32 word \<Rightarrow> string option \<Rightarrow> posix_request os_state
    \<Rightarrow> ((int + int) \<times> string option \<times> posix_request os_state) option" where
  "Wait_loop env child secondsToWait ErrMsg st =
     (case sys (Waitpid child 0) st of
        None \<Rightarrow> None
      | Some (r, st1) \<Rightarrow>
          if ret r = child then Some (Inr (out r), ErrMsg, st1)
          else if secondsToWait \<noteq> 0 \<and> errno st1 = EINTR
          then do {
            (r2, st2) \<leftarrow> sys (Kill child SIGKILL) st1;
            (r3, st3) \<leftarrow> sys (Alarm 0) st2;
            (r4, st4) \<leftarrow> sys (Sigaction SIGALRM Old) st3;
            (r5, st5) \<leftarrow> sys WaitAny st4;
            Some (Inl (- 2),
                  (if ret r5 \<noteq> child
                   then MakeErrMsg env ErrMsg ''Child timed out but wouldn't die'' (- 1) st5
                   else MakeErrMsg env ErrMsg ''Child timed out'' 0 st5),
                  st5)
          }
          else if errno st1 \<noteq> EINTR
          then Some (Inl (- 1),
                     MakeErrMsg env ErrMsg ''Error waiting for child process'' (- 1) st1, st1)
          else Wait_loop env child secondsToWait ErrMsg st1)"
  by pat_completeness auto
termination
  by (relation "measure (\<lambda>(env, child, secs, E, st). length (pending st))")
     (auto simp: sys_def split: list.splits)

fun ec_value :: "error_code \<Rightarrow> int" where
  "ec_value (error_code v c) = v"

definition Wait_status :: "unix_env \<Rightarrow> string \<Rightarrow> int \<Rightarrow> string option \<Rightarrow> posix_request os_state
    \<Rightarrow> ((int \<times> string option) \<times> posix_request os_state) option" where
  "Wait_status env Program status ErrMsg st =
     (if WIFEXITED status
      then do {
        (result, st1) \<leftarrow>
          (if HAVE_POSIX_SPAWN env \<and> WEXITSTATUS status = 127
           then do {
             ((ec, Exists), st1) \<leftarrow> exists_unix Program st;
             Some (if ec_value ec = 0 \<and> Exists = Some True then 126 else WEXITSTATUS status, st1)
           }
           else Some (WEXITSTATUS status, st));
        if result = 127
        then Some ((- 1, map_option (\<lambda>old. StrError env ENOENT) ErrMsg), st1)
        else if result = 126
        then Some ((- 1, map_option (\<lambda>old. ''Program could not be executed'') ErrMsg), st1)
        else Some ((result, ErrMsg), st1)
      }
      else if WIFSIGNALED status
      then Some ((- 2, map_option (\<lambda>old. strsignal env (WTERMSIG status)
                                    @ (if HAVE_WCOREDUMP env \<and> WCOREDUMP status
                                       then '' (core dumped)'' else [])) ErrMsg), st)
      else Some ((0, ErrMsg), st))"

text \<open>
  \<open>Data\<close> holds the process id as a pointer; \<open>child\<close> is its conversion to \<open>pid_t\<close>.
  The \<open>assert\<close> on \<open>Data\<close> is taken as compiled in: a null \<open>Data\<close> ends the process.
\<close>

definition Wait_unix :: "unix_env \<Rightarrow> 64 word \<Rightarrow> string \<Rightarrow> 32 word \<Rightarrow> string option \<Rightarrow> posix_request os_state
    \<Rightarrow> ((int \<times> string option) outcome \<times> posix_request os_state) option" where
  "Wait_unix env Data Program secondsToWait ErrMsg st =
     (if \<not> HAVE_SYS_WAIT_H env
      then Some (Returns (- 1, map_option
                   (\<lambda>old. ''Program::Wait is not implemented on this platform yet!'') ErrMsg), st)
      else if Data = 0 then Some (Died ''invalid pid to wait on, process not started?'', st)
      else do {
        st2 \<leftarrow> (if secondsToWait \<noteq> 0
                then do {
                  (r1, st1) \<leftarrow> sys (Sigaction SIGALRM TimeOutHandler) st;
                  (r2, st2) \<leftarrow> sys (Alarm secondsToWait) st1;
                  Some st2
                }
                else Some st);
        (res, E, st3) \<leftarrow> Wait_loop env (sint (ucast Data :: 32 word)) secondsToWait ErrMsg st2;
        (case res of
           Inl v \<Rightarrow> Some (Returns (v, E), st3)
         | Inr status \<Rightarrow>
             do {
               st5 \<leftarrow> (if secondsToWait \<noteq> 0
                       then do {
                         (r4, st4) \<leftarrow> sys (Alarm 0) st3;
                         (r5, st5) \<leftarrow> sys (Sigaction SIGALRM Old) st4;
                         Some st5
                       }
                       else Some st3);
               (v, st6) \<leftarrow> Wait_status env Program status E st5;
               Some (Returns v, st6)
             })
      })"

section \<open>Program.cpp, the Windows backend\<close>

text \<open>Numbers of the Windows headers. Handles and process ids are integers.\<close>

definition INVALID_HANDLE_VALUE :: int where "INVALID_HANDLE_VALUE = - 1"
definition INVALID_FILE_ATTRIBUTES :: "32 word" where "INVALID_FILE_ATTRIBUTES = - 1"
definition GENERIC_READ :: "32 word" where "GENERIC_READ = 0x80000000"
definition GENERIC_WRITE :: "32 word" where "GENERIC_WRITE = 0x40000000"
definition FILE_SHARE_READ :: "32 word" where "FILE_SHARE_READ = 1"
definition CREATE_ALWAYS :: "32 word" where "CREATE_ALWAYS = 2"
definition OPEN_EXISTING :: "32 word" where "OPEN_EXISTING = 3"
definition INFINITE :: "32 word" where "INFINITE = 0xFFFFFFFF"
definition WAIT_TIMEOUT :: int where "WAIT_TIMEOUT = 258"

record Win32ProcessInfo =
  hProcess :: int
  dwProcessId :: int

text \<open>
  \<open>MakeErrMsg\<close> of Windows.hpp: the prefix followed by the system's text for the last
  error. \<open>fm\<close> is the message table \<open>FormatMessageA\<close> reads.
\<close>

definition MakeErrMsg_win :: "(int \<Rightarrow> string) \<Rightarrow> string option \<Rightarrow> string \<Rightarrow> win_request os_state \<Rightarrow> string option" where
  "MakeErrMsg_win fm ErrMsg prefix st =
     (case ErrMsg of
        None \<Rightarrow> None
      | Some old \<Rightarrow> Some (prefix @ fm (GetLastError st)))"

text \<open>\<open>UTF8ToUTF16\<close> and \<open>fs::can_execute\<close> of the Windows part of Path.cpp.
  \<open>UTF8ToUTF16\<close> yields the number of the error code it returns.\<close>

definition UTF8ToUTF16 :: "string \<Rightarrow> win_request os_state \<Rightarrow> (int \<times> win_request os_state) option" where
  "UTF8ToUTF16 utf8 st =
     do {
       (r1, st1) \<leftarrow> sys (MultiByteToWideChar utf8 0) st;
       if ret r1 = 0 then Some (GetLastError st1, st1)
       else do {
         (r2, st2) \<leftarrow> sys (MultiByteToWideChar utf8 (ret r1)) st1;
         if ret r2 = 0 then Some (GetLastError st2, st2) else Some (0, st2)
       }
     }"

definition can_execute_win :: "string \<Rightarrow> win_request os_state \<Rightarrow> (bool \<times> win_request os_state) option" where
  "can_execute_win Path st =
     do {
       (ec, st1) \<leftarrow> UTF8ToUTF16 Path st;
       if ec \<noteq> 0 then Some (False, st1)
       else do {
         (r, st2) \<leftarrow> sys (GetFileAttributesW Path) st1;
         Some ((word_of_int (ret r) :: 32 word) \<noteq> INVALID_FILE_ATTRIBUTES, st2)
       }
     }"

definition RedirectIO_win :: "(int \<Rightarrow> string) \<Rightarrow> string option \<Rightarrow> int \<Rightarrow> string option \<Rightarrow> win_request os_state
    \<Rightarrow> ((int \<times> string option) \<times> win_request os_state) option" where
  "RedirectIO_win fm path fd ErrMsg st =
     (case path of
        None \<Rightarrow>
          do {
            (r0, st1) \<leftarrow> sys (GetOsfHandle fd) st;
            (r, st2) \<leftarrow> sys (DuplicateHandle (ret r0)) st1;
            Some ((out r, ErrMsg), st2)
          }
      | Some p \<Rightarrow>
          let fname = (if p = [] then ''NUL'' else p)
          in do {
            (r, st1) \<leftarrow> sys (CreateFileA fname (if fd \<noteq> 0 then GENERIC_WRITE else GENERIC_READ)
                                 FILE_SHARE_READ
                                 (if fd = 0 then OPEN_EXISTING else CREATE_ALWAYS)) st;
            if ret r = INVALID_HANDLE_VALUE
            then Some ((ret r, MakeErrMsg_win fm ErrMsg
                          (fname @ '': Can't open file for ''
                             @ (if fd \<noteq> 0 then ''input: '' else ''output: '')) st1), st1)
            else Some ((ret r, ErrMsg), st1)
          })"

text \<open>The body of \<open>if (redirects)\<close> in \<open>Execute\<close>: whether the function goes on, the
  three handles of the start-up information, and the message.\<close>

definition win_redirects :: "(int \<Rightarrow> string) \<Rightarrow> string option \<times> string option \<times> string option
    \<Rightarrow> string option \<Rightarrow> win_request os_state
    \<Rightarrow> ((bool \<times> (int \<times> int \<times> int) \<times> string option) \<times> win_request os_state) option" where
  "win_redirects fm R ErrMsg st =
     (case R of (R0, R1, R2) \<Rightarrow>
        do {
          ((hIn, E0), st1) \<leftarrow> RedirectIO_win fm R0 0 ErrMsg st;
          if hIn = INVALID_HANDLE_VALUE
          then Some ((False, (hIn, INVALID_HANDLE_VALUE, INVALID_HANDLE_VALUE),
                      MakeErrMsg_win fm E0 ''can't redirect stdin'' st1), st1)
          else do {
            ((hOut, E1), st2) \<leftarrow> RedirectIO_win fm R1 1 E0 st1;
            if hOut = INVALID_HANDLE_VALUE
            then do {
              (c, st3) \<leftarrow> sys (CloseHandle hIn) st2;
              Some ((False, (hIn, hOut, INVALID_HANDLE_VALUE),
                     MakeErrMsg_win fm E1 ''can't redirect stdout'' st3), st3)
            }
            else if R1 \<noteq> None \<and> R2 \<noteq> None \<and> the R1 = the R2
            then do {
              (d, st3) \<leftarrow> sys (DuplicateHandle hOut) st2;
              Some ((True, (hIn, hOut, out d), E1), st3)
            }
            else do {
              ((hErr, E2), st3) \<leftarrow> RedirectIO_win fm R2 2 E1 st2;
              if hErr = INVALID_HANDLE_VALUE
              then do {
                (c1, st4) \<leftarrow> sys (CloseHandle hIn) st3;
                (c2, st5) \<leftarrow> sys (CloseHandle hOut) st4;
                Some ((False, (hIn, hOut, hErr),
                       MakeErrMsg_win fm E2 ''can't redirect stderr'' st5), st5)
              }
              else Some ((True, (hIn, hOut, hErr), E2), st3)
            }
          }
        })"

text \<open>
  The destructors of \<open>hJob\<close> and \<open>hThread\<close>, run in this order when \<open>Execute\<close>
  returns after declaring them. \<open>JobHandleTraits\<close> inherits \<open>IsValid\<close> from
  \<open>CommonHandleTraits\<close>, which compares with \<open>INVALID_HANDLE_VALUE\<close>.
\<close>

definition close_scoped :: "int \<Rightarrow> int \<Rightarrow> win_request os_state \<Rightarrow> win_request os_state option" where
  "close_scoped hJob hThread st =
     do {
       st1 \<leftarrow> (if hJob \<noteq> INVALID_HANDLE_VALUE
               then map_option snd (sys (CloseHandle hJob) st) else Some st);
       (if hThread \<noteq> INVALID_HANDLE_VALUE
        then map_option snd (sys (CloseHandle hThread) st1) else Some st1)
     }"

text \<open>
  \<open>Execute\<close>. The command line and the environment block are built from \<open>args\<close> and
  \<open>envp\<close> by loops that call nothing and cannot fail; the \<open>CreateProcessA\<close> request
  records \<open>args\<close> and \<open>envp\<close> themselves, with the three handles of the start-up
  information. The process information the call writes is read from the answer \<open>pi\<close>:
  \<open>hProcess\<close> is \<open>out pi\<close>, \<open>hThread\<close> is \<open>out2 pi\<close>, \<open>dwProcessId\<close> is \<open>out3 pi\<close>.
  \<open>Data\<close> is \<open>None\<close> for a null \<open>void**\<close> and otherwise holds what is stored there.
  \<open>Execute_created\<close> is the part of the function that runs once the process exists,
  from \<open>if (Data)\<close> to the end.
\<close>

definition Execute_created :: "(int \<Rightarrow> string) \<Rightarrow> Win32ProcessInfo option option \<Rightarrow> 32 word
    \<Rightarrow> string option \<Rightarrow> response \<Rightarrow> win_request os_state
    \<Rightarrow> ((bool \<times> Win32ProcessInfo option option \<times> string option) \<times> win_request os_state) option" where
  "Execute_created fm Data memoryLimit E pi st8 =
     (let Data1 = map_option (\<lambda>old. Some \<lparr>hProcess = out pi, dwProcessId = out3 pi\<rparr>) Data;
          hThread = out2 pi
      in if memoryLimit \<noteq> 0
         then do {
           (j, st9) \<leftarrow> sys CreateJobObject st8;
           (c0, st10) \<leftarrow> sys (CloseHandle 0) st9;
           (ok, st11) \<leftarrow>
             (if ret j \<noteq> INVALID_HANDLE_VALUE
              then do {
                (s1, sta) \<leftarrow> sys (SetInformationJobObject (ret j)
                                       ((ucast memoryLimit :: 64 word) * 1048576)) st10;
                if ret s1 \<noteq> 0
                then do {
                  (a1, stb) \<leftarrow> sys (AssignProcessToJobObject (ret j) (out pi)) sta;
                  Some (ret a1 \<noteq> 0, stb)
                }
                else Some (False, sta)
              }
              else Some (False, st10));
           if \<not> ok
           then do {
             (t, st12) \<leftarrow> sys (TerminateProcess (out pi) 1) st11;
             (w, st13) \<leftarrow> sys (WaitForSingleObject (out pi) INFINITE) st12;
             st14 \<leftarrow> close_scoped (ret j) hThread st13;
             Some ((False, Data1, MakeErrMsg_win fm E ''Unable to set memory limit'' st11), st14)
           }
           else do {
             st12 \<leftarrow> (if Data = None
                      then map_option snd (sys (CloseHandle (out pi)) st11)
                      else Some st11);
             st13 \<leftarrow> close_scoped (ret j) hThread st12;
             Some ((True, Data1, E), st13)
           }
         }
         else do {
           st9 \<leftarrow> (if Data = None
                   then map_option snd (sys (CloseHandle (out pi)) st8)
                   else Some st8);
           st10 \<leftarrow> close_scoped 0 hThread st9;
           Some ((True, Data1, E), st10)
         })"

definition Execute_win :: "(int \<Rightarrow> string) \<Rightarrow> Win32ProcessInfo option option \<Rightarrow> string
    \<Rightarrow> string list \<Rightarrow> string list option \<Rightarrow> redirects \<Rightarrow> 32 word \<Rightarrow> string option
    \<Rightarrow> win_request os_state
    \<Rightarrow> ((bool \<times> Win32ProcessInfo option option \<times> string option) \<times> win_request os_state) option" where
  "Execute_win fm Data Program args envp redirects memoryLimit ErrMsg st =
     do {
       (can, st1) \<leftarrow> can_execute_win Program st;
       if \<not> can
       then Some ((False, Data, map_option (\<lambda>old. ''program not executable'') ErrMsg), st1)
       else do {
         ((go_on, (hIn, hOut, hErr), E), st2) \<leftarrow>
           (case redirects of
              None \<Rightarrow> Some ((True, (INVALID_HANDLE_VALUE, INVALID_HANDLE_VALUE,
                                   INVALID_HANDLE_VALUE), ErrMsg), st1)
            | Some R \<Rightarrow> win_redirects fm R ErrMsg st1);
         if \<not> go_on then Some ((False, Data, E), st2)
         else do {
           (f1, st3) \<leftarrow> sys (Fflush 1) st2;
           (f2, st4) \<leftarrow> sys (Fflush 2) st3;
           (pi, st5) \<leftarrow> sys (CreateProcessA Program args envp hIn hOut hErr) st4;
           (c1, st6) \<leftarrow> sys (CloseHandle hIn) st5;
           (c2, st7) \<leftarrow> sys (CloseHandle hOut) st6;
           (c3, st8) \<leftarrow> sys (CloseHandle hErr) st7;
           if ret pi = 0
           then Some ((False, Data,
                       MakeErrMsg_win fm E
                         (''Couldn't execute program '' @ [CHR 0x27] @ Program @ [CHR 0x27])
                         (st8\<lparr>errno := GetLastError st5\<rparr>)),
                      st8\<lparr>errno := GetLastError st5\<rparr>)
           else Execute_created fm Data memoryLimit E pi st8
         }
       }
     }"

text \<open>
  \<open>WaitAux\<close> and \<open>Wait\<close>. The exit status is a \<open>DWORD\<close>; \<open>(int)status\<close> reads it
  as a signed number.
\<close>

definition WaitAux :: "(int \<Rightarrow> string) \<Rightarrow> Win32ProcessInfo \<Rightarrow> 32 word \<Rightarrow> string option \<Rightarrow> win_request os_state
    \<Rightarrow> ((int \<times> string option) \<times> win_request os_state) option" where
  "WaitAux fm wpi secondsToWait ErrMsg st =
     (let millisecondsToWait = (if secondsToWait > 0 then secondsToWait * 1000 else INFINITE)
      in do {
        (w, st1) \<leftarrow> sys (WaitForSingleObject (hProcess wpi) millisecondsToWait) st;
        (stop, st3) \<leftarrow>
          (if ret w = WAIT_TIMEOUT
           then do {
             (t, st2) \<leftarrow> sys (TerminateProcess (hProcess wpi) 1) st1;
             if ret t = 0 then Some (True, st2)
             else do {
               (w2, st3) \<leftarrow> sys (WaitForSingleObject (hProcess wpi) INFINITE) st2;
               Some (False, st3)
             }
           }
           else Some (False, st1));
        if stop
        then Some ((- 2, MakeErrMsg_win fm ErrMsg ''Failed to terminate timed-out program.'' st3),
                   st3)
        else do {
          (g, st4) \<leftarrow> sys (GetExitCodeProcess (hProcess wpi)) st3;
          let status = (word_of_int (out g) :: 32 word);
          if ret g = 0
          then Some ((- 2, MakeErrMsg_win fm ErrMsg ''Failed getting status for program.'' st4),
                     st4)
          else if status = 0 then Some ((0, ErrMsg), st4)
          else if status AND 0xBFFF0000 = 0x80000000 then Some ((sint status, ErrMsg), st4)
          else if status AND 0xFF \<noteq> 0 then Some ((sint (status AND 0x7FFFFFFF), ErrMsg), st4)
          else Some ((1, ErrMsg), st4)
        }
      })"

definition Wait_win :: "(int \<Rightarrow> string) \<Rightarrow> Win32ProcessInfo \<Rightarrow> 32 word \<Rightarrow> string option \<Rightarrow> win_request os_state
    \<Rightarrow> ((int \<times> string option) \<times> win_request os_state) option" where
  "Wait_win fm wpi secondsToWait ErrMsg st =
     do {
       ((Ret, E), st1) \<leftarrow> WaitAux fm wpi secondsToWait ErrMsg st;
       (c, st2) \<leftarrow> sys (CloseHandle (hProcess wpi)) st1;
       Some ((Ret, E), st2)
     }"

section \<open>Vocabulary of the properties\<close>

text \<open>
  What a protection value lets a program do with the pages, as a mask over the three
  flags: the meaning of the \<open>PAGE_*\<close> constants and of the \<open>PROT_*\<close> bits.
\<close>

definition win_access :: "32 word \<Rightarrow> 32 word" where
  "win_access p =
     (if p = PAGE_READONLY then MF_READ
      else if p = PAGE_READWRITE then MF_READ OR MF_WRITE
      else if p = PAGE_EXECUTE then MF_EXEC
      else if p = PAGE_EXECUTE_READ then MF_READ OR MF_EXEC
      else if p = PAGE_EXECUTE_READWRITE then MF_READ OR MF_WRITE OR MF_EXEC
      else 0)"

definition posix_access :: "int \<Rightarrow> 32 word" where
  "posix_access p =
     (if p AND PROT_READ \<noteq> 0 then MF_READ else 0)
     OR (if p AND PROT_WRITE \<noteq> 0 then MF_WRITE else 0)
     OR (if p AND PROT_EXEC \<noteq> 0 then MF_EXEC else 0)"

text \<open>The protection a request asks the Windows kernel for.\<close>

fun requested_protection :: "virtual_request \<Rightarrow> 32 word option" where
  "requested_protection (VirtualAlloc a n t p) = Some p"
| "requested_protection (VirtualProtect a n p) = Some p"
| "requested_protection rq = None"

text \<open>
  The address \<open>allocateMappedMemory\<close> passes to the system: the end of \<open>NearBlock\<close>
  rounded up to the granularity \<open>G\<close> (the page size on POSIX), and 0 without a hint.
\<close>

definition hint_address :: "size_t \<Rightarrow> MemoryBlock option \<Rightarrow> size_t" where
  "hint_address G NearBlock =
     (let Start = (case NearBlock of Some nb \<Rightarrow> Address nb + Size nb | None \<Rightarrow> 0)
      in if Start \<noteq> 0 \<and> Start mod G \<noteq> 0 then Start + (G - Start mod G) else Start)"

text \<open>The calls made between two states of one run.\<close>

definition new_calls :: "'c os_state \<Rightarrow> 'c os_state \<Rightarrow> 'c list" where
  "new_calls st st' = drop (length (calls st)) (calls st')"

text \<open>Concrete inputs: a fresh state with given answers, a failing answer, a block.\<close>

definition answers :: "response list \<Rightarrow> 'c os_state" where
  "answers rs = \<lparr>pending = rs, calls = [], errno = 0\<rparr>"

definition failing :: "int \<Rightarrow> int \<Rightarrow> response" where
  "failing v e = \<lparr>ret = v, sets_err = Some e, out = 0, out2 = 0, out3 = 0\<rparr>"

definition near :: MemoryBlock where
  "near = \<lparr>Address = 65536, Size = 4096\<rparr>"

text \<open>
  A Linux build with every optional feature, with the texts glibc gives for the error and
  signal numbers used below, and a Windows message table.
\<close>

definition EACCES :: int where "EACCES = 13"

definition linux_strerror :: "int \<Rightarrow> string" where
  "linux_strerror e =
     (if e = ENOENT then ''No such file or directory''
      else if e = EINTR then ''Interrupted system call''
      else if e = EACCES then ''Permission denied''
      else ''Unknown error'')"

definition linux_strsignal :: "int \<Rightarrow> string" where
  "linux_strsignal sig =
     (if sig = SIGKILL then ''Killed''
      else if sig = 11 then ''Segmentation fault''
      else ''Unknown signal'')"

definition linux_env :: unix_env where
  "linux_env = \<lparr>HAVE_POSIX_SPAWN = True, HAVE_SYS_WAIT_H = True, HAVE_RLIMITS = True,
                 HAVE_RLIMIT_RSS = True, HAVE_RLIMIT_AS = True, HAVE_WCOREDUMP = True,
                 strerror_r = linux_strerror, strsignal = linux_strsignal,
                 environ = [''PATH=/usr/bin'']\<rparr>"

definition win_messages :: "int \<Rightarrow> string" where
  "win_messages e = ''The operation failed.''"

text \<open>An answer that returns \<open>v\<close> and writes \<open>x\<close> to its first output parameter.\<close>

definition writing :: "int \<Rightarrow> int \<Rightarrow> response" where
  "writing v x = \<lparr>ret = v, sets_err = None, out = x, out2 = 0, out3 = 0\<rparr>"





fun creates_process :: "win_request \<Rightarrow> bool" where
  "creates_process (CreateProcessA f a e i h err) = True"
| "creates_process rq = False"


section \<open>Properties of the memory manager\<close>

lemma sys_Some_iff:
  "sys rq st = Some (r, st1) \<longleftrightarrow>
     (\<exists>rs. pending st = r # rs \<and>
        st1 = st\<lparr>pending := rs, calls := calls st @ [rq],
                  errno := (case sets_err r of None \<Rightarrow> errno st | Some e \<Rightarrow> e)\<rparr>)"
  by (auto simp: sys_def split: list.splits)

lemma sys_calls: "sys rq st = Some (r, st1) \<Longrightarrow> calls st1 = calls st @ [rq]"
  by (auto simp: sys_def split: list.splits)

subsection \<open>What each function asks of the system\<close>

lemma hint_address_None: "hint_address G None = 0"
  by (simp add: hint_address_def)

lemma alloc_unix_eq:
  assumes "n \<noteq> 0" "getPosixProtectionFlags fb Flags = Inr q"
  shows "allocateMappedMemory_unix fb ps n nb Flags st =
    (case sys (Mmap (hint_address ps nb) (ps * ((n + ps - 1) div ps)) q
                 (MAP_PRIVATE OR MAP_ANONYMOUS) (- 1) 0) st of
       None \<Rightarrow> None
     | Some (r, st1) \<Rightarrow>
         if (word_of_int (ret r) :: size_t) = MAP_FAILED
         then (if nb \<noteq> None then allocateMappedMemory_unix fb ps n None Flags st1
               else Some (Returns (MemoryBlock0, error_code (errno st1) system_category), st1))
         else Some (Returns (\<lparr>Address = word_of_int (ret r),
                               Size = (n + ps - 1) div ps * ps\<rparr>, success),
                    if Flags AND MF_EXEC \<noteq> 0
                    then emit (InvalidateInstructionCache (word_of_int (ret r))
                                 ((n + ps - 1) div ps * ps)) st1
                    else st1))"
  using assms
  by (subst allocateMappedMemory_unix.simps)
     (simp add: Let_def hint_address_def split: option.splits)

lemma alloc_win_eq:
  assumes "n \<noteq> 0" "getWindowsProtectionFlags Flags = Inr p"
  shows "allocateMappedMemory_win g n nb Flags st =
    (case sys (VirtualAlloc (hint_address g nb) ((n + g - 1) div g * g)
                 (MEM_RESERVE OR MEM_COMMIT) p) st of
       None \<Rightarrow> None
     | Some (r, st1) \<Rightarrow>
         if (word_of_int (ret r) :: size_t) = 0
         then (if nb \<noteq> None then allocateMappedMemory_win g n None Flags st1
               else Some (Returns (MemoryBlock0, error_code (GetLastError st1) system_category),
                          st1))
         else if Flags AND MF_EXEC \<noteq> 0
         then (case sys (FlushInstructionCache (word_of_int (ret r))
                           ((n + g - 1) div g * g)) st1 of
                 None \<Rightarrow> None
               | Some (r2, st2) \<Rightarrow>
                   Some (Returns (\<lparr>Address = word_of_int (ret r),
                                          Size = (n + g - 1) div g * g\<rparr>, success), st2))
         else Some (Returns (\<lparr>Address = word_of_int (ret r),
                               Size = (n + g - 1) div g * g\<rparr>, success), st1))"
  using assms
  by (subst allocateMappedMemory_win.simps)
     (simp add: Let_def hint_address_def split: option.splits)

lemma protect_unix_eq:
  assumes "Address M \<noteq> 0" "Size M \<noteq> 0" "getPosixProtectionFlags fb Flags = Inr q"
  shows "protectMappedMemory_unix fb M Flags st =
    (case sys (Mprotect (Address M) (Size M) q) st of
       None \<Rightarrow> None
     | Some (r, st1) \<Rightarrow>
         if ret r \<noteq> 0 then Some (Returns (error_code (errno st1) system_category), st1)
         else Some (Returns success,
                    if Flags AND MF_EXEC \<noteq> 0
                    then emit (InvalidateInstructionCache (Address M) (Size M)) st1
                    else st1))"
proof -
  from assms(3) have "Flags \<noteq> 0"
    by (auto simp: getPosixProtectionFlags_def MF_READ_def MF_WRITE_def MF_EXEC_def
          split: if_splits)
  with assms show ?thesis
    by (simp add: protectMappedMemory_unix_def Let_def split: option.splits)
qed

lemma protect_win_eq:
  assumes "Address M \<noteq> 0" "Size M \<noteq> 0" "getWindowsProtectionFlags Flags = Inr p"
  shows "protectMappedMemory_win M Flags st =
    (case sys (VirtualProtect (Address M) (Size M) p) st of
       None \<Rightarrow> None
     | Some (r, st1) \<Rightarrow>
         if ret r = 0 then Some (Returns (error_code (GetLastError st1) system_category), st1)
         else if Flags AND MF_EXEC \<noteq> 0
         then (case sys (FlushInstructionCache (Address M) (Size M)) st1 of
                 None \<Rightarrow> None
               | Some (r2, st2) \<Rightarrow> Some (Returns success, st2))
         else Some (Returns success, st1))"
  using assms
  by (simp add: protectMappedMemory_win_def split: option.splits)

subsection \<open>Write-only requests\<close>

lemma win_translation:
  "getWindowsProtectionFlags Flags = Inr p \<Longrightarrow> Flags AND win_access p = Flags"
  by (auto simp: getWindowsProtectionFlags_def win_access_def MF_READ_def MF_WRITE_def MF_EXEC_def
        PAGE_READONLY_def PAGE_READWRITE_def PAGE_EXECUTE_def PAGE_EXECUTE_READ_def
        PAGE_EXECUTE_READWRITE_def split: if_splits)

lemma posix_translation:
  "getPosixProtectionFlags fb Flags = Inr q \<Longrightarrow> Flags AND posix_access q = Flags"
  by (auto simp: getPosixProtectionFlags_def posix_access_def MF_READ_def MF_WRITE_def MF_EXEC_def
        PROT_READ_def PROT_WRITE_def PROT_EXEC_def split: if_splits)

lemma write_only_win: "getWindowsProtectionFlags MF_WRITE = Inr PAGE_READWRITE"
  by (simp add: getWindowsProtectionFlags_def MF_WRITE_def MF_READ_def)

lemma access_PAGE_READWRITE: "win_access PAGE_READWRITE = MF_READ OR MF_WRITE"
  by (simp add: win_access_def PAGE_READWRITE_def PAGE_READONLY_def)

lemma alloc_win_nohint_calls:
  assumes "allocateMappedMemory_win g n None MF_WRITE st = Some (res, st')"
  shows "\<forall>rq \<in> set (new_calls st st'). \<forall>p. requested_protection rq = Some p \<longrightarrow> p = PAGE_READWRITE"
  using assms
  apply (subst (asm) allocateMappedMemory_win.simps)
  apply (auto simp: write_only_win Let_def new_calls_def sys_Some_iff split: if_splits option.splits)
  done

lemma alloc_win_calls:
  assumes "allocateMappedMemory_win g n nb MF_WRITE st = Some (res, st')"
  shows "\<forall>rq \<in> set (new_calls st st'). \<forall>p. requested_protection rq = Some p \<longrightarrow> p = PAGE_READWRITE"
proof (cases nb)
  case None
  with assms show ?thesis by (simp add: alloc_win_nohint_calls)
next
  case (Some b)
  show ?thesis
    using assms unfolding Some
    apply (subst (asm) allocateMappedMemory_win.simps)
    apply (subst (asm) allocateMappedMemory_win.simps)
    apply (auto simp: write_only_win Let_def new_calls_def sys_Some_iff split: if_splits option.splits)
    done
qed

lemma protect_win_calls:
  assumes "protectMappedMemory_win M MF_WRITE st = Some (res, st')"
  shows "\<forall>rq \<in> set (new_calls st st'). \<forall>p. requested_protection rq = Some p \<longrightarrow> p = PAGE_READWRITE"
  using assms
  by (auto simp: protectMappedMemory_win_def write_only_win Let_def new_calls_def sys_Some_iff
      split: if_splits option.splits)

lemma write_only_not_exec: "MF_WRITE AND MF_EXEC = 0"
  by (simp add: MF_WRITE_def MF_EXEC_def)

lemma write_only_posix: "getPosixProtectionFlags fb MF_WRITE = Inr PROT_WRITE"
  by (simp add: getPosixProtectionFlags_def MF_WRITE_def MF_READ_def)

lemma alloc_win_write_only:
  assumes "n \<noteq> 0"
  shows "allocateMappedMemory_win g n nb MF_WRITE wst =
    (case sys (VirtualAlloc (hint_address g nb) ((n + g - 1) div g * g)
                 (MEM_RESERVE OR MEM_COMMIT) PAGE_READWRITE) wst of
       None \<Rightarrow> None
     | Some (r, st1) \<Rightarrow>
         if (word_of_int (ret r) :: size_t) = 0
         then (if nb \<noteq> None then allocateMappedMemory_win g n None MF_WRITE st1
               else Some (Returns (MemoryBlock0, error_code (GetLastError st1) system_category),
                          st1))
         else Some (Returns (\<lparr>Address = word_of_int (ret r),
                               Size = (n + g - 1) div g * g\<rparr>, success), st1))"
  by (subst alloc_win_eq [OF assms write_only_win])
     (simp add: write_only_not_exec split: option.split del: allocateMappedMemory_win.simps)

lemma protect_win_write_only:
  assumes "Address M \<noteq> 0" "Size M \<noteq> 0"
  shows "protectMappedMemory_win M MF_WRITE wst =
    (case sys (VirtualProtect (Address M) (Size M) PAGE_READWRITE) wst of
       None \<Rightarrow> None
     | Some (r, st1) \<Rightarrow>
         if ret r = 0 then Some (Returns (error_code (GetLastError st1) system_category), st1)
         else Some (Returns success, st1))"
  by (subst protect_win_eq [OF assms write_only_win])
     (simp add: write_only_not_exec split: option.split)

text \<open>
  C5. On the Windows backend, which has no write-only page protection, a request with
  the write-only permission set reaches the system as \<open>PAGE_READWRITE\<close>, which allows
  reading and writing: \<open>allocateMappedMemory\<close> with a non-zero size calls
  \<open>VirtualAlloc\<close> with that protection and returns the block this call gives (after a
  failure at a hint it runs again without the hint), \<open>protectMappedMemory\<close> on a
  non-empty block calls \<open>VirtualProtect\<close> with it and reports success exactly when
  that call succeeds, and no other protection is ever asked for. For every permission
  set, on both backends: when the translation returns a protection, it allows every
  access requested, and it is this protection that allocation and re-protection pass to
  \<open>VirtualAlloc\<close>, \<open>VirtualProtect\<close>, \<open>mmap\<close> and \<open>mprotect\<close>.
\<close>

theorem write_only_is_promoted:
  "getWindowsProtectionFlags MF_WRITE = Inr PAGE_READWRITE \<and>
   win_access PAGE_READWRITE = MF_READ OR MF_WRITE \<and>
   (n \<noteq> 0 \<longrightarrow>
      allocateMappedMemory_win g n nb MF_WRITE wst =
        (case sys (VirtualAlloc (hint_address g nb) ((n + g - 1) div g * g)
                     (MEM_RESERVE OR MEM_COMMIT) PAGE_READWRITE) wst of
           None \<Rightarrow> None
         | Some (r, st1) \<Rightarrow>
             if (word_of_int (ret r) :: size_t) = 0
             then (if nb \<noteq> None then allocateMappedMemory_win g n None MF_WRITE st1
                   else Some (Returns (MemoryBlock0,
                                error_code (GetLastError st1) system_category), st1))
             else Some (Returns (\<lparr>Address = word_of_int (ret r),
                                   Size = (n + g - 1) div g * g\<rparr>, success), st1))) \<and>
   (Address M \<noteq> 0 \<and> Size M \<noteq> 0 \<longrightarrow>
      protectMappedMemory_win M MF_WRITE wst =
        (case sys (VirtualProtect (Address M) (Size M) PAGE_READWRITE) wst of
           None \<Rightarrow> None
         | Some (r, st1) \<Rightarrow>
             if ret r = 0
             then Some (Returns (error_code (GetLastError st1) system_category), st1)
             else Some (Returns success, st1))) \<and>
   (allocateMappedMemory_win g n nb MF_WRITE wst = Some (res, wst') \<longrightarrow>
      (\<forall>rq \<in> set (new_calls wst wst').
         \<forall>p. requested_protection rq = Some p \<longrightarrow> p = PAGE_READWRITE)) \<and>
   (protectMappedMemory_win M MF_WRITE wst = Some (res2, wst2) \<longrightarrow>
      (\<forall>rq \<in> set (new_calls wst wst2).
         \<forall>p. requested_protection rq = Some p \<longrightarrow> p = PAGE_READWRITE)) \<and>
   (getWindowsProtectionFlags Flags = Inr p \<longrightarrow>
      Flags AND win_access p = Flags \<and>
      (n \<noteq> 0 \<longrightarrow>
         allocateMappedMemory_win g n nb Flags wst =
           (case sys (VirtualAlloc (hint_address g nb) ((n + g - 1) div g * g)
                        (MEM_RESERVE OR MEM_COMMIT) p) wst of
              None \<Rightarrow> None
            | Some (r, st1) \<Rightarrow>
                if (word_of_int (ret r) :: size_t) = 0
                then (if nb \<noteq> None then allocateMappedMemory_win g n None Flags st1
                      else Some (Returns (MemoryBlock0,
                                   error_code (GetLastError st1) system_category), st1))
                else if Flags AND MF_EXEC \<noteq> 0
                then (case sys (FlushInstructionCache (word_of_int (ret r))
                                  ((n + g - 1) div g * g)) st1 of
                        None \<Rightarrow> None
                      | Some (r2, st2) \<Rightarrow>
                          Some (Returns (\<lparr>Address = word_of_int (ret r),
                                           Size = (n + g - 1) div g * g\<rparr>, success), st2))
                else Some (Returns (\<lparr>Address = word_of_int (ret r),
                                      Size = (n + g - 1) div g * g\<rparr>, success), st1))) \<and>
      (Address M \<noteq> 0 \<and> Size M \<noteq> 0 \<longrightarrow>
         protectMappedMemory_win M Flags wst =
           (case sys (VirtualProtect (Address M) (Size M) p) wst of
              None \<Rightarrow> None
            | Some (r, st1) \<Rightarrow>
                if ret r = 0
                then Some (Returns (error_code (GetLastError st1) system_category), st1)
                else if Flags AND MF_EXEC \<noteq> 0
                then (case sys (FlushInstructionCache (Address M) (Size M)) st1 of
                        None \<Rightarrow> None
                      | Some (r2, st2) \<Rightarrow> Some (Returns success, st2))
                else Some (Returns success, st1)))) \<and>
   (getPosixProtectionFlags fb Flags = Inr q \<longrightarrow>
      Flags AND posix_access q = Flags \<and>
      (n \<noteq> 0 \<longrightarrow>
         allocateMappedMemory_unix fb ps n nb Flags st =
           (case sys (Mmap (hint_address ps nb) (ps * ((n + ps - 1) div ps)) q
                        (MAP_PRIVATE OR MAP_ANONYMOUS) (- 1) 0) st of
              None \<Rightarrow> None
            | Some (r, st1) \<Rightarrow>
                if (word_of_int (ret r) :: size_t) = MAP_FAILED
                then (if nb \<noteq> None then allocateMappedMemory_unix fb ps n None Flags st1
                      else Some (Returns (MemoryBlock0,
                                   error_code (errno st1) system_category), st1))
                else Some (Returns (\<lparr>Address = word_of_int (ret r),
                                      Size = (n + ps - 1) div ps * ps\<rparr>, success),
                           if Flags AND MF_EXEC \<noteq> 0
                           then emit (InvalidateInstructionCache (word_of_int (ret r))
                                        ((n + ps - 1) div ps * ps)) st1
                           else st1))) \<and>
      (Address M \<noteq> 0 \<and> Size M \<noteq> 0 \<longrightarrow>
         protectMappedMemory_unix fb M Flags st =
           (case sys (Mprotect (Address M) (Size M) q) st of
              None \<Rightarrow> None
            | Some (r, st1) \<Rightarrow>
                if ret r \<noteq> 0
                then Some (Returns (error_code (errno st1) system_category), st1)
                else Some (Returns success,
                           if Flags AND MF_EXEC \<noteq> 0
                           then emit (InvalidateInstructionCache (Address M) (Size M)) st1
                           else st1))))"
proof (intro conjI impI)
  show "getWindowsProtectionFlags MF_WRITE = Inr PAGE_READWRITE" by (rule write_only_win)
  show "win_access PAGE_READWRITE = MF_READ OR MF_WRITE" by (rule access_PAGE_READWRITE)
next
  assume "n \<noteq> 0"
  then show "allocateMappedMemory_win g n nb MF_WRITE wst =
        (case sys (VirtualAlloc (hint_address g nb) ((n + g - 1) div g * g)
                     (MEM_RESERVE OR MEM_COMMIT) PAGE_READWRITE) wst of
           None \<Rightarrow> None
         | Some (r, st1) \<Rightarrow>
             if (word_of_int (ret r) :: size_t) = 0
             then (if nb \<noteq> None then allocateMappedMemory_win g n None MF_WRITE st1
                   else Some (Returns (MemoryBlock0,
                                error_code (GetLastError st1) system_category), st1))
             else Some (Returns (\<lparr>Address = word_of_int (ret r),
                                   Size = (n + g - 1) div g * g\<rparr>, success), st1))"
    by (rule alloc_win_write_only)
next
  assume "Address M \<noteq> 0 \<and> Size M \<noteq> 0"
  then show "protectMappedMemory_win M MF_WRITE wst =
        (case sys (VirtualProtect (Address M) (Size M) PAGE_READWRITE) wst of
           None \<Rightarrow> None
         | Some (r, st1) \<Rightarrow>
             if ret r = 0
             then Some (Returns (error_code (GetLastError st1) system_category), st1)
             else Some (Returns success, st1))"
    using protect_win_write_only [of M wst] by blast
next
  assume "allocateMappedMemory_win g n nb MF_WRITE wst = Some (res, wst')"
  then show "\<forall>rq \<in> set (new_calls wst wst').
         \<forall>p. requested_protection rq = Some p \<longrightarrow> p = PAGE_READWRITE"
    by (rule alloc_win_calls)
next
  assume "protectMappedMemory_win M MF_WRITE wst = Some (res2, wst2)"
  then show "\<forall>rq \<in> set (new_calls wst wst2).
         \<forall>p. requested_protection rq = Some p \<longrightarrow> p = PAGE_READWRITE"
    by (rule protect_win_calls)
next
  assume "getWindowsProtectionFlags Flags = Inr p"
  then show "Flags AND win_access p = Flags" by (rule win_translation)
next
  assume "getWindowsProtectionFlags Flags = Inr p" and "n \<noteq> 0"
  then show "allocateMappedMemory_win g n nb Flags wst =
           (case sys (VirtualAlloc (hint_address g nb) ((n + g - 1) div g * g)
                        (MEM_RESERVE OR MEM_COMMIT) p) wst of
              None \<Rightarrow> None
            | Some (r, st1) \<Rightarrow>
                if (word_of_int (ret r) :: size_t) = 0
                then (if nb \<noteq> None then allocateMappedMemory_win g n None Flags st1
                      else Some (Returns (MemoryBlock0,
                                   error_code (GetLastError st1) system_category), st1))
                else if Flags AND MF_EXEC \<noteq> 0
                then (case sys (FlushInstructionCache (word_of_int (ret r))
                                  ((n + g - 1) div g * g)) st1 of
                        None \<Rightarrow> None
                      | Some (r2, st2) \<Rightarrow>
                          Some (Returns (\<lparr>Address = word_of_int (ret r),
                                           Size = (n + g - 1) div g * g\<rparr>, success), st2))
                else Some (Returns (\<lparr>Address = word_of_int (ret r),
                                      Size = (n + g - 1) div g * g\<rparr>, success), st1))"
    by (rule alloc_win_eq [rotated])
next
  assume "getWindowsProtectionFlags Flags = Inr p" and "Address M \<noteq> 0 \<and> Size M \<noteq> 0"
  then show "protectMappedMemory_win M Flags wst =
           (case sys (VirtualProtect (Address M) (Size M) p) wst of
              None \<Rightarrow> None
            | Some (r, st1) \<Rightarrow>
                if ret r = 0
                then Some (Returns (error_code (GetLastError st1) system_category), st1)
                else if Flags AND MF_EXEC \<noteq> 0
                then (case sys (FlushInstructionCache (Address M) (Size M)) st1 of
                        None \<Rightarrow> None
                      | Some (r2, st2) \<Rightarrow> Some (Returns success, st2))
                else Some (Returns success, st1))"
    using protect_win_eq [of M Flags p wst] by blast
next
  assume "getPosixProtectionFlags fb Flags = Inr q"
  then show "Flags AND posix_access q = Flags" by (rule posix_translation)
next
  assume "getPosixProtectionFlags fb Flags = Inr q" and "n \<noteq> 0"
  then show "allocateMappedMemory_unix fb ps n nb Flags st =
           (case sys (Mmap (hint_address ps nb) (ps * ((n + ps - 1) div ps)) q
                        (MAP_PRIVATE OR MAP_ANONYMOUS) (- 1) 0) st of
              None \<Rightarrow> None
            | Some (r, st1) \<Rightarrow>
                if (word_of_int (ret r) :: size_t) = MAP_FAILED
                then (if nb \<noteq> None then allocateMappedMemory_unix fb ps n None Flags st1
                      else Some (Returns (MemoryBlock0,
                                   error_code (errno st1) system_category), st1))
                else Some (Returns (\<lparr>Address = word_of_int (ret r),
                                      Size = (n + ps - 1) div ps * ps\<rparr>, success),
                           if Flags AND MF_EXEC \<noteq> 0
                           then emit (InvalidateInstructionCache (word_of_int (ret r))
                                        ((n + ps - 1) div ps * ps)) st1
                           else st1))"
    by (rule alloc_unix_eq [rotated])
next
  assume "getPosixProtectionFlags fb Flags = Inr q" and "Address M \<noteq> 0 \<and> Size M \<noteq> 0"
  then show "protectMappedMemory_unix fb M Flags st =
           (case sys (Mprotect (Address M) (Size M) q) st of
              None \<Rightarrow> None
            | Some (r, st1) \<Rightarrow>
                if ret r \<noteq> 0
                then Some (Returns (error_code (errno st1) system_category), st1)
                else Some (Returns success,
                           if Flags AND MF_EXEC \<noteq> 0
                           then emit (InvalidateInstructionCache (Address M) (Size M)) st1
                           else st1))"
    using protect_unix_eq [of M fb Flags q st] by blast
qed

theorem write_only_is_promoted_witness:
  "allocateMappedMemory_win 65536 100 None MF_WRITE (answers [answer 1048576])
     = Some (Returns (\<lparr>Address = 1048576, Size = 65536\<rparr>, success),
             \<lparr>pending = [],
                calls = [VirtualAlloc 0 65536 (MEM_RESERVE OR MEM_COMMIT) PAGE_READWRITE],
                errno = 0\<rparr>) \<and>
   protectMappedMemory_win near MF_WRITE (answers [answer 1])
     = Some (Returns success,
             \<lparr>pending = [], calls = [VirtualProtect 65536 4096 PAGE_READWRITE],
                errno = 0\<rparr>) \<and>
   getPosixProtectionFlags False MF_WRITE = Inr PROT_WRITE \<and>
   allocateMappedMemory_unix False 4096 100 None MF_WRITE (answers [answer 1048576])
     = Some (Returns (\<lparr>Address = 1048576, Size = 4096\<rparr>, success),
             \<lparr>pending = [],
                calls = [Mmap 0 4096 PROT_WRITE (MAP_PRIVATE OR MAP_ANONYMOUS) (- 1) 0],
                errno = 0\<rparr>) \<and>
   protectMappedMemory_unix False near MF_WRITE (answers [answer 0])
     = Some (Returns success,
             \<lparr>pending = [], calls = [Mprotect 65536 4096 PROT_WRITE], errno = 0\<rparr>) \<and>
   win_access PAGE_READWRITE = MF_READ OR MF_WRITE \<and>
   MF_WRITE AND posix_access PROT_WRITE = MF_WRITE"
proof -
  have n: "(100 :: size_t) \<noteq> 0" and m: "Address near \<noteq> 0 \<and> Size near \<noteq> 0"
    by (simp_all add: near_def)
  note T = write_only_is_promoted [where n = 100 and g = 65536 and nb = None and M = near
      and fb = False and Flags = MF_WRITE and q = PROT_WRITE and ps = 4096]
  from T [where wst = "answers [answer 1048576]", THEN conjunct2, THEN conjunct2,
      THEN conjunct1, rule_format, OF n]
  have a: "allocateMappedMemory_win 65536 100 None MF_WRITE (answers [answer 1048576])
     = Some (Returns (\<lparr>Address = 1048576, Size = 65536\<rparr>, success),
             \<lparr>pending = [],
                calls = [VirtualAlloc 0 65536 (MEM_RESERVE OR MEM_COMMIT) PAGE_READWRITE],
                errno = 0\<rparr>)"
    by (simp add: hint_address_None answers_def answer_def sys_def
          del: allocateMappedMemory_win.simps)
  from T [where wst = "answers [answer 1]", THEN conjunct2, THEN conjunct2, THEN conjunct2,
      THEN conjunct1, rule_format, OF m]
  have b: "protectMappedMemory_win near MF_WRITE (answers [answer 1])
     = Some (Returns success,
             \<lparr>pending = [], calls = [VirtualProtect 65536 4096 PAGE_READWRITE],
                errno = 0\<rparr>)"
    by (simp add: near_def answers_def answer_def sys_def)
  have t: "getPosixProtectionFlags False MF_WRITE = Inr PROT_WRITE"
    by (rule write_only_posix)
  note U = T [where st = "answers [answer 0]", THEN conjunct2, THEN conjunct2, THEN conjunct2,
      THEN conjunct2, THEN conjunct2, THEN conjunct2, THEN conjunct2, rule_format, OF t]
  from U [THEN conjunct2, THEN conjunct2, rule_format, OF m]
  have c: "protectMappedMemory_unix False near MF_WRITE (answers [answer 0])
     = Some (Returns success,
             \<lparr>pending = [], calls = [Mprotect 65536 4096 PROT_WRITE], errno = 0\<rparr>)"
    by (simp add: near_def answers_def answer_def sys_def write_only_not_exec)
  from U [THEN conjunct1] have d: "MF_WRITE AND posix_access PROT_WRITE = MF_WRITE" .
  note V = T [where st = "answers [answer 1048576]", THEN conjunct2, THEN conjunct2,
      THEN conjunct2, THEN conjunct2, THEN conjunct2, THEN conjunct2, THEN conjunct2,
      rule_format, OF t]
  from V [THEN conjunct2, THEN conjunct1, rule_format, OF n]
  have e: "allocateMappedMemory_unix False 4096 100 None MF_WRITE (answers [answer 1048576])
     = Some (Returns (\<lparr>Address = 1048576, Size = 4096\<rparr>, success),
             \<lparr>pending = [],
                calls = [Mmap 0 4096 PROT_WRITE (MAP_PRIVATE OR MAP_ANONYMOUS) (- 1) 0],
                errno = 0\<rparr>)"
    by (simp add: hint_address_None answers_def answer_def sys_def MAP_FAILED_def
          write_only_not_exec del: allocateMappedMemory_unix.simps)
  from a b t e c d access_PAGE_READWRITE show ?thesis by blast
qed

subsection \<open>Placement hints\<close>

lemma alloc_unix_nohint_fails:
  assumes "allocateMappedMemory_unix fb ps n None f st = Some (Returns (B, EC), st')"
    and "EC \<noteq> success"
  shows "\<exists>len prot r.
           sys (Mmap 0 len prot (MAP_PRIVATE OR MAP_ANONYMOUS) (- 1) 0) st = Some (r, st') \<and>
           word_of_int (ret r) = MAP_FAILED \<and>
           len = ps * ((n + ps - 1) div ps) \<and> getPosixProtectionFlags fb f = Inr prot"
  using assms
  apply (subst (asm) allocateMappedMemory_unix.simps)
  apply (auto simp: Let_def split: if_splits sum.splits option.splits prod.splits)
  done

lemma alloc_unix_hint_fails:
  assumes "allocateMappedMemory_unix fb ps n (Some nb) f st = Some (Returns (B, EC), st')"
    and "EC \<noteq> success"
  shows "\<exists>start len prot r st1.
           sys (Mmap start len prot (MAP_PRIVATE OR MAP_ANONYMOUS) (- 1) 0) st = Some (r, st1) \<and>
           word_of_int (ret r) = MAP_FAILED \<and>
           allocateMappedMemory_unix fb ps n None f st1 = Some (Returns (B, EC), st') \<and>
           calls st' = calls st @ [Mmap start len prot (MAP_PRIVATE OR MAP_ANONYMOUS) (- 1) 0,
                                    Mmap 0 len prot (MAP_PRIVATE OR MAP_ANONYMOUS) (- 1) 0]"
proof -
  from assms obtain start prot r st1 where
    1: "sys (Mmap start (ps * ((n + ps - 1) div ps)) prot
               (MAP_PRIVATE OR MAP_ANONYMOUS) (- 1) 0) st = Some (r, st1)"
    and 2: "word_of_int (ret r) = MAP_FAILED"
    and 3: "allocateMappedMemory_unix fb ps n None f st1 = Some (Returns (B, EC), st')"
    and 4: "getPosixProtectionFlags fb f = Inr prot"
    apply (subst (asm) allocateMappedMemory_unix.simps)
    apply (auto simp: Let_def split: if_splits sum.splits option.splits prod.splits)
    done
  from alloc_unix_nohint_fails [OF 3 assms(2)] 4 obtain r2 where
    5: "sys (Mmap 0 (ps * ((n + ps - 1) div ps)) prot
               (MAP_PRIVATE OR MAP_ANONYMOUS) (- 1) 0) st1 = Some (r2, st')"
    by auto
  from 1 5 have "calls st' = calls st @
      [Mmap start (ps * ((n + ps - 1) div ps)) prot (MAP_PRIVATE OR MAP_ANONYMOUS) (- 1) 0,
       Mmap 0 (ps * ((n + ps - 1) div ps)) prot (MAP_PRIVATE OR MAP_ANONYMOUS) (- 1) 0]"
    by (simp add: sys_calls)
  with 1 2 3 show ?thesis by blast
qed

lemma alloc_win_nohint_fails:
  assumes "allocateMappedMemory_win g n None f st = Some (Returns (B, EC), st')"
    and "EC \<noteq> success"
  shows "\<exists>len prot r.
           sys (VirtualAlloc 0 len (MEM_RESERVE OR MEM_COMMIT) prot) st = Some (r, st') \<and>
           (word_of_int (ret r) :: size_t) = 0 \<and>
           len = (n + g - 1) div g * g \<and> getWindowsProtectionFlags f = Inr prot"
  using assms
  apply (subst (asm) allocateMappedMemory_win.simps)
  apply (auto simp: Let_def split: if_splits sum.splits option.splits prod.splits)
  done

lemma alloc_win_hint_fails:
  assumes "allocateMappedMemory_win g n (Some nb) f st = Some (Returns (B, EC), st')"
    and "EC \<noteq> success"
  shows "\<exists>start len prot r st1.
           sys (VirtualAlloc start len (MEM_RESERVE OR MEM_COMMIT) prot) st = Some (r, st1) \<and>
           (word_of_int (ret r) :: size_t) = 0 \<and>
           allocateMappedMemory_win g n None f st1 = Some (Returns (B, EC), st') \<and>
           calls st' = calls st @ [VirtualAlloc start len (MEM_RESERVE OR MEM_COMMIT) prot,
                                    VirtualAlloc 0 len (MEM_RESERVE OR MEM_COMMIT) prot]"
proof -
  from assms obtain start prot r st1 where
    1: "sys (VirtualAlloc start ((n + g - 1) div g * g) (MEM_RESERVE OR MEM_COMMIT) prot) st
          = Some (r, st1)"
    and 2: "(word_of_int (ret r) :: size_t) = 0"
    and 3: "allocateMappedMemory_win g n None f st1 = Some (Returns (B, EC), st')"
    and 4: "getWindowsProtectionFlags f = Inr prot"
    apply (subst (asm) allocateMappedMemory_win.simps)
    apply (auto simp: Let_def split: if_splits sum.splits option.splits prod.splits)
    done
  from alloc_win_nohint_fails [OF 3 assms(2)] 4 obtain r2 where
    5: "sys (VirtualAlloc 0 ((n + g - 1) div g * g) (MEM_RESERVE OR MEM_COMMIT) prot) st1
          = Some (r2, st')"
    by auto
  from 1 5 have "calls st' = calls st @
      [VirtualAlloc start ((n + g - 1) div g * g) (MEM_RESERVE OR MEM_COMMIT) prot,
       VirtualAlloc 0 ((n + g - 1) div g * g) (MEM_RESERVE OR MEM_COMMIT) prot]"
    by (simp add: sys_calls)
  with 1 2 3 show ?thesis by blast
qed

lemma retry_unix:
  assumes "n \<noteq> 0" "getPosixProtectionFlags fb f = Inr q"
    and "sys (Mmap (hint_address ps (Some nb)) (ps * ((n + ps - 1) div ps)) q
               (MAP_PRIVATE OR MAP_ANONYMOUS) (- 1) 0) st = Some (r, st1)"
  shows "allocateMappedMemory_unix fb ps n (Some nb) f st =
          (if (word_of_int (ret r) :: size_t) = MAP_FAILED
           then allocateMappedMemory_unix fb ps n None f st1
           else Some (Returns (\<lparr>Address = word_of_int (ret r),
                                 Size = (n + ps - 1) div ps * ps\<rparr>, success),
                      if f AND MF_EXEC \<noteq> 0
                      then emit (InvalidateInstructionCache (word_of_int (ret r))
                                   ((n + ps - 1) div ps * ps)) st1
                      else st1))"
  by (subst alloc_unix_eq [OF assms(1,2)])
     (simp add: assms(3) del: allocateMappedMemory_unix.simps)

lemma nohint_unix:
  assumes "n \<noteq> 0" "getPosixProtectionFlags fb f = Inr q"
  shows "allocateMappedMemory_unix fb ps n None f st1 =
          (case sys (Mmap 0 (ps * ((n + ps - 1) div ps)) q
                       (MAP_PRIVATE OR MAP_ANONYMOUS) (- 1) 0) st1 of
             None \<Rightarrow> None
           | Some (r2, st2) \<Rightarrow>
               if (word_of_int (ret r2) :: size_t) = MAP_FAILED
               then Some (Returns (MemoryBlock0, error_code (errno st2) system_category), st2)
               else Some (Returns (\<lparr>Address = word_of_int (ret r2),
                                     Size = (n + ps - 1) div ps * ps\<rparr>, success),
                          if f AND MF_EXEC \<noteq> 0
                          then emit (InvalidateInstructionCache (word_of_int (ret r2))
                                       ((n + ps - 1) div ps * ps)) st2
                          else st2))"
  by (subst alloc_unix_eq [OF assms])
     (simp add: hint_address_None split: option.split del: allocateMappedMemory_unix.simps)

lemma retry_win:
  assumes "n \<noteq> 0" "getWindowsProtectionFlags f = Inr p"
    and "sys (VirtualAlloc (hint_address g (Some nb)) ((n + g - 1) div g * g)
               (MEM_RESERVE OR MEM_COMMIT) p) wst = Some (r, st1)"
  shows "allocateMappedMemory_win g n (Some nb) f wst =
          (if (word_of_int (ret r) :: size_t) = 0
           then allocateMappedMemory_win g n None f st1
           else if f AND MF_EXEC \<noteq> 0
           then (case sys (FlushInstructionCache (word_of_int (ret r))
                             ((n + g - 1) div g * g)) st1 of
                   None \<Rightarrow> None
                 | Some (r2, st2) \<Rightarrow>
                     Some (Returns (\<lparr>Address = word_of_int (ret r),
                                      Size = (n + g - 1) div g * g\<rparr>, success), st2))
           else Some (Returns (\<lparr>Address = word_of_int (ret r),
                                 Size = (n + g - 1) div g * g\<rparr>, success), st1))"
  by (subst alloc_win_eq [OF assms(1,2)])
     (simp add: assms(3) del: allocateMappedMemory_win.simps)

lemma nohint_win:
  assumes "n \<noteq> 0" "getWindowsProtectionFlags f = Inr p"
  shows "allocateMappedMemory_win g n None f st1 =
          (case sys (VirtualAlloc 0 ((n + g - 1) div g * g) (MEM_RESERVE OR MEM_COMMIT) p) st1 of
             None \<Rightarrow> None
           | Some (r2, st2) \<Rightarrow>
               if (word_of_int (ret r2) :: size_t) = 0
               then Some (Returns (MemoryBlock0,
                            error_code (GetLastError st2) system_category), st2)
               else if f AND MF_EXEC \<noteq> 0
               then (case sys (FlushInstructionCache (word_of_int (ret r2))
                                 ((n + g - 1) div g * g)) st2 of
                       None \<Rightarrow> None
                     | Some (r3, st3) \<Rightarrow>
                         Some (Returns (\<lparr>Address = word_of_int (ret r2),
                                          Size = (n + g - 1) div g * g\<rparr>, success), st3))
               else Some (Returns (\<lparr>Address = word_of_int (ret r2),
                                     Size = (n + g - 1) div g * g\<rparr>, success), st2))"
  by (subst alloc_win_eq [OF assms])
     (simp add: hint_address_None split: option.split del: allocateMappedMemory_win.simps)

text \<open>
  C6. When \<open>allocateMappedMemory\<close> is given a placement hint (\<open>NearBlock\<close>), the size
  is not zero and the system answers the attempt at the hinted address: if this attempt
  fails, the call is exactly the same allocation run with no hint from the state the
  failed attempt left, whatever that run gives (the block it obtains, or its failure);
  if the attempt succeeds, its block is returned and no second attempt is made. The run
  with no hint makes one attempt, at address 0, and reports its failure without trying
  again. Hence a call with a hint that reports failure made exactly two attempts, the
  second at address 0, and a hint never turns an allocation that succeeds without it
  into a failure. On both backends.
\<close>

theorem hint_failure_is_retried_once:
  "(n \<noteq> 0 \<and> getPosixProtectionFlags fb f = Inr q \<and>
    sys (Mmap (hint_address ps (Some nb)) (ps * ((n + ps - 1) div ps)) q
           (MAP_PRIVATE OR MAP_ANONYMOUS) (- 1) 0) st = Some (r, st1) \<longrightarrow>
      allocateMappedMemory_unix fb ps n (Some nb) f st =
        (if (word_of_int (ret r) :: size_t) = MAP_FAILED
         then allocateMappedMemory_unix fb ps n None f st1
         else Some (Returns (\<lparr>Address = word_of_int (ret r),
                               Size = (n + ps - 1) div ps * ps\<rparr>, success),
                    if f AND MF_EXEC \<noteq> 0
                    then emit (InvalidateInstructionCache (word_of_int (ret r))
                                 ((n + ps - 1) div ps * ps)) st1
                    else st1))) \<and>
   (n \<noteq> 0 \<and> getPosixProtectionFlags fb f = Inr q \<longrightarrow>
      allocateMappedMemory_unix fb ps n None f st1 =
        (case sys (Mmap 0 (ps * ((n + ps - 1) div ps)) q
                     (MAP_PRIVATE OR MAP_ANONYMOUS) (- 1) 0) st1 of
           None \<Rightarrow> None
         | Some (r2, st2) \<Rightarrow>
             if (word_of_int (ret r2) :: size_t) = MAP_FAILED
             then Some (Returns (MemoryBlock0, error_code (errno st2) system_category), st2)
             else Some (Returns (\<lparr>Address = word_of_int (ret r2),
                                   Size = (n + ps - 1) div ps * ps\<rparr>, success),
                        if f AND MF_EXEC \<noteq> 0
                        then emit (InvalidateInstructionCache (word_of_int (ret r2))
                                     ((n + ps - 1) div ps * ps)) st2
                        else st2))) \<and>
   (allocateMappedMemory_unix fb ps n (Some nb) f st = Some (Returns (B, EC), st') \<and>
    EC \<noteq> success \<longrightarrow>
      (\<exists>start len prot r st1.
           sys (Mmap start len prot (MAP_PRIVATE OR MAP_ANONYMOUS) (- 1) 0) st = Some (r, st1) \<and>
           word_of_int (ret r) = MAP_FAILED \<and>
           allocateMappedMemory_unix fb ps n None f st1 = Some (Returns (B, EC), st') \<and>
           calls st' = calls st @ [Mmap start len prot (MAP_PRIVATE OR MAP_ANONYMOUS) (- 1) 0,
                                    Mmap 0 len prot (MAP_PRIVATE OR MAP_ANONYMOUS) (- 1) 0])) \<and>
   (n \<noteq> 0 \<and> getWindowsProtectionFlags f = Inr p \<and>
    sys (VirtualAlloc (hint_address g (Some nb)) ((n + g - 1) div g * g)
           (MEM_RESERVE OR MEM_COMMIT) p) wst = Some (wr, wst1) \<longrightarrow>
      allocateMappedMemory_win g n (Some nb) f wst =
        (if (word_of_int (ret wr) :: size_t) = 0
         then allocateMappedMemory_win g n None f wst1
         else if f AND MF_EXEC \<noteq> 0
         then (case sys (FlushInstructionCache (word_of_int (ret wr))
                           ((n + g - 1) div g * g)) wst1 of
                 None \<Rightarrow> None
               | Some (r2, st2) \<Rightarrow>
                   Some (Returns (\<lparr>Address = word_of_int (ret wr),
                                    Size = (n + g - 1) div g * g\<rparr>, success), st2))
         else Some (Returns (\<lparr>Address = word_of_int (ret wr),
                               Size = (n + g - 1) div g * g\<rparr>, success), wst1))) \<and>
   (n \<noteq> 0 \<and> getWindowsProtectionFlags f = Inr p \<longrightarrow>
      allocateMappedMemory_win g n None f wst1 =
        (case sys (VirtualAlloc 0 ((n + g - 1) div g * g) (MEM_RESERVE OR MEM_COMMIT) p) wst1 of
           None \<Rightarrow> None
         | Some (r2, st2) \<Rightarrow>
             if (word_of_int (ret r2) :: size_t) = 0
             then Some (Returns (MemoryBlock0,
                          error_code (GetLastError st2) system_category), st2)
             else if f AND MF_EXEC \<noteq> 0
             then (case sys (FlushInstructionCache (word_of_int (ret r2))
                               ((n + g - 1) div g * g)) st2 of
                     None \<Rightarrow> None
                   | Some (r3, st3) \<Rightarrow>
                       Some (Returns (\<lparr>Address = word_of_int (ret r2),
                                        Size = (n + g - 1) div g * g\<rparr>, success), st3))
             else Some (Returns (\<lparr>Address = word_of_int (ret r2),
                                   Size = (n + g - 1) div g * g\<rparr>, success), st2))) \<and>
   (allocateMappedMemory_win g n (Some nb) f wst = Some (Returns (B, EC), wst') \<and>
    EC \<noteq> success \<longrightarrow>
      (\<exists>start len prot r st1.
           sys (VirtualAlloc start len (MEM_RESERVE OR MEM_COMMIT) prot) wst = Some (r, st1) \<and>
           (word_of_int (ret r) :: size_t) = 0 \<and>
           allocateMappedMemory_win g n None f st1 = Some (Returns (B, EC), wst') \<and>
           calls wst' = calls wst @ [VirtualAlloc start len (MEM_RESERVE OR MEM_COMMIT) prot,
                                      VirtualAlloc 0 len (MEM_RESERVE OR MEM_COMMIT) prot]))"
proof -
  have u1: "n \<noteq> 0 \<and> getPosixProtectionFlags fb f = Inr q \<and>
    sys (Mmap (hint_address ps (Some nb)) (ps * ((n + ps - 1) div ps)) q
           (MAP_PRIVATE OR MAP_ANONYMOUS) (- 1) 0) st = Some (r, st1) \<longrightarrow>
      allocateMappedMemory_unix fb ps n (Some nb) f st =
        (if (word_of_int (ret r) :: size_t) = MAP_FAILED
         then allocateMappedMemory_unix fb ps n None f st1
         else Some (Returns (\<lparr>Address = word_of_int (ret r),
                               Size = (n + ps - 1) div ps * ps\<rparr>, success),
                    if f AND MF_EXEC \<noteq> 0
                    then emit (InvalidateInstructionCache (word_of_int (ret r))
                                 ((n + ps - 1) div ps * ps)) st1
                    else st1))"
    using retry_unix [of n fb f q ps nb st r st1] by blast
  have u2: "n \<noteq> 0 \<and> getPosixProtectionFlags fb f = Inr q \<longrightarrow>
      allocateMappedMemory_unix fb ps n None f st1 =
        (case sys (Mmap 0 (ps * ((n + ps - 1) div ps)) q
                     (MAP_PRIVATE OR MAP_ANONYMOUS) (- 1) 0) st1 of
           None \<Rightarrow> None
         | Some (r2, st2) \<Rightarrow>
             if (word_of_int (ret r2) :: size_t) = MAP_FAILED
             then Some (Returns (MemoryBlock0, error_code (errno st2) system_category), st2)
             else Some (Returns (\<lparr>Address = word_of_int (ret r2),
                                   Size = (n + ps - 1) div ps * ps\<rparr>, success),
                        if f AND MF_EXEC \<noteq> 0
                        then emit (InvalidateInstructionCache (word_of_int (ret r2))
                                     ((n + ps - 1) div ps * ps)) st2
                        else st2))"
    using nohint_unix [of n fb f q ps st1] by blast
  have u3: "allocateMappedMemory_unix fb ps n (Some nb) f st = Some (Returns (B, EC), st') \<and>
    EC \<noteq> success \<longrightarrow>
      (\<exists>start len prot r st1.
           sys (Mmap start len prot (MAP_PRIVATE OR MAP_ANONYMOUS) (- 1) 0) st = Some (r, st1) \<and>
           word_of_int (ret r) = MAP_FAILED \<and>
           allocateMappedMemory_unix fb ps n None f st1 = Some (Returns (B, EC), st') \<and>
           calls st' = calls st @ [Mmap start len prot (MAP_PRIVATE OR MAP_ANONYMOUS) (- 1) 0,
                                    Mmap 0 len prot (MAP_PRIVATE OR MAP_ANONYMOUS) (- 1) 0])"
    using alloc_unix_hint_fails [of fb ps n nb f st B EC st'] by blast
  have w1: "n \<noteq> 0 \<and> getWindowsProtectionFlags f = Inr p \<and>
    sys (VirtualAlloc (hint_address g (Some nb)) ((n + g - 1) div g * g)
           (MEM_RESERVE OR MEM_COMMIT) p) wst = Some (wr, wst1) \<longrightarrow>
      allocateMappedMemory_win g n (Some nb) f wst =
        (if (word_of_int (ret wr) :: size_t) = 0
         then allocateMappedMemory_win g n None f wst1
         else if f AND MF_EXEC \<noteq> 0
         then (case sys (FlushInstructionCache (word_of_int (ret wr))
                           ((n + g - 1) div g * g)) wst1 of
                 None \<Rightarrow> None
               | Some (r2, st2) \<Rightarrow>
                   Some (Returns (\<lparr>Address = word_of_int (ret wr),
                                    Size = (n + g - 1) div g * g\<rparr>, success), st2))
         else Some (Returns (\<lparr>Address = word_of_int (ret wr),
                               Size = (n + g - 1) div g * g\<rparr>, success), wst1))"
    using retry_win [of n f p g nb wst wr wst1] by blast
  have w2: "n \<noteq> 0 \<and> getWindowsProtectionFlags f = Inr p \<longrightarrow>
      allocateMappedMemory_win g n None f wst1 =
        (case sys (VirtualAlloc 0 ((n + g - 1) div g * g) (MEM_RESERVE OR MEM_COMMIT) p) wst1 of
           None \<Rightarrow> None
         | Some (r2, st2) \<Rightarrow>
             if (word_of_int (ret r2) :: size_t) = 0
             then Some (Returns (MemoryBlock0,
                          error_code (GetLastError st2) system_category), st2)
             else if f AND MF_EXEC \<noteq> 0
             then (case sys (FlushInstructionCache (word_of_int (ret r2))
                               ((n + g - 1) div g * g)) st2 of
                     None \<Rightarrow> None
                   | Some (r3, st3) \<Rightarrow>
                       Some (Returns (\<lparr>Address = word_of_int (ret r2),
                                        Size = (n + g - 1) div g * g\<rparr>, success), st3))
             else Some (Returns (\<lparr>Address = word_of_int (ret r2),
                                   Size = (n + g - 1) div g * g\<rparr>, success), st2))"
    using nohint_win [of n f p g wst1] by blast
  have w3: "allocateMappedMemory_win g n (Some nb) f wst = Some (Returns (B, EC), wst') \<and>
    EC \<noteq> success \<longrightarrow>
      (\<exists>start len prot r st1.
           sys (VirtualAlloc start len (MEM_RESERVE OR MEM_COMMIT) prot) wst = Some (r, st1) \<and>
           (word_of_int (ret r) :: size_t) = 0 \<and>
           allocateMappedMemory_win g n None f st1 = Some (Returns (B, EC), wst') \<and>
           calls wst' = calls wst @ [VirtualAlloc start len (MEM_RESERVE OR MEM_COMMIT) prot,
                                      VirtualAlloc 0 len (MEM_RESERVE OR MEM_COMMIT) prot])"
    using alloc_win_hint_fails [of g n nb f wst B EC wst'] by blast
  from u1 u2 u3 w1 w2 w3 show ?thesis by (intro conjI)
qed

theorem hint_failure_is_retried_once_witness:
  "allocateMappedMemory_unix False 4096 100 (Some near) MF_WRITE
       (answers [failing (- 1) 12, answer 1048576])
     = Some (Returns (\<lparr>Address = 1048576, Size = 4096\<rparr>, success),
             \<lparr>pending = [],
                calls = [Mmap 69632 4096 PROT_WRITE (MAP_PRIVATE OR MAP_ANONYMOUS) (- 1) 0,
                         Mmap 0 4096 PROT_WRITE (MAP_PRIVATE OR MAP_ANONYMOUS) (- 1) 0],
                errno = 12\<rparr>) \<and>
   allocateMappedMemory_unix False 4096 100 (Some near) MF_WRITE
       (answers [failing (- 1) 12, failing (- 1) 13])
     = Some (Returns (MemoryBlock0, error_code 13 system_category),
             \<lparr>pending = [],
                calls = [Mmap 69632 4096 PROT_WRITE (MAP_PRIVATE OR MAP_ANONYMOUS) (- 1) 0,
                         Mmap 0 4096 PROT_WRITE (MAP_PRIVATE OR MAP_ANONYMOUS) (- 1) 0],
                errno = 13\<rparr>) \<and>
   allocateMappedMemory_win 65536 100 (Some near) MF_WRITE
       (answers [failing 0 487, answer 1048576])
     = Some (Returns (\<lparr>Address = 1048576, Size = 65536\<rparr>, success),
             \<lparr>pending = [],
                calls = [VirtualAlloc 131072 65536 (MEM_RESERVE OR MEM_COMMIT) PAGE_READWRITE,
                         VirtualAlloc 0 65536 (MEM_RESERVE OR MEM_COMMIT) PAGE_READWRITE],
                errno = 487\<rparr>) \<and>
   allocateMappedMemory_win 65536 100 (Some near) MF_WRITE
       (answers [failing 0 487, failing 0 8])
     = Some (Returns (MemoryBlock0, error_code 8 system_category),
             \<lparr>pending = [],
                calls = [VirtualAlloc 131072 65536 (MEM_RESERVE OR MEM_COMMIT) PAGE_READWRITE,
                         VirtualAlloc 0 65536 (MEM_RESERVE OR MEM_COMMIT) PAGE_READWRITE],
                errno = 8\<rparr>) \<and>
   error_code 13 system_category \<noteq> success"
proof -
  have n: "(100 :: size_t) \<noteq> 0" by simp
  have ua: "hint_address 4096 (Some near) = 69632"
    by (simp add: hint_address_def near_def)
  have wa: "hint_address 65536 (Some near) = 131072"
    by (simp add: hint_address_def near_def)
  have uf: "(word_of_int (ret (failing (- 1) 12)) :: size_t) = MAP_FAILED"
    by (simp add: failing_def MAP_FAILED_def)
  have wf: "(word_of_int (ret (failing 0 487)) :: size_t) = 0"
    by (simp add: failing_def)
  have us: "sys (Mmap (hint_address 4096 (Some near)) (4096 * ((100 + 4096 - 1) div 4096))
                   PROT_WRITE (MAP_PRIVATE OR MAP_ANONYMOUS) (- 1) 0)
                (answers (failing (- 1) 12 # rest))
      = Some (failing (- 1) 12,
              \<lparr>pending = rest,
                 calls = [Mmap 69632 4096 PROT_WRITE (MAP_PRIVATE OR MAP_ANONYMOUS) (- 1) 0],
                 errno = 12\<rparr>)" for rest
    by (simp add: ua answers_def failing_def sys_def)
  have ws: "sys (VirtualAlloc (hint_address 65536 (Some near)) ((100 + 65536 - 1) div 65536 * 65536)
                   (MEM_RESERVE OR MEM_COMMIT) PAGE_READWRITE)
                (answers (failing 0 487 # rest))
      = Some (failing 0 487,
              \<lparr>pending = rest,
                 calls = [VirtualAlloc 131072 65536 (MEM_RESERVE OR MEM_COMMIT) PAGE_READWRITE],
                 errno = 487\<rparr>)" for rest
    by (simp add: wa answers_def failing_def sys_def)
  note U = hint_failure_is_retried_once [where n = 100 and fb = False and f = MF_WRITE
      and q = PROT_WRITE and ps = 4096 and nb = near and r = "failing (- 1) 12"]
  note W = hint_failure_is_retried_once [where n = 100 and f = MF_WRITE
      and p = PAGE_READWRITE and g = 65536 and nb = near and wr = "failing 0 487"]
  note U1 = U [where st = "answers [failing (- 1) 12, answer 1048576]"
      and ?st1.0 = "\<lparr>pending = [answer 1048576],
                 calls = [Mmap 69632 4096 PROT_WRITE (MAP_PRIVATE OR MAP_ANONYMOUS) (- 1) 0],
                 errno = 12\<rparr>"]
  note U2 = U [where st = "answers [failing (- 1) 12, failing (- 1) 13]"
      and ?st1.0 = "\<lparr>pending = [failing (- 1) 13],
                 calls = [Mmap 69632 4096 PROT_WRITE (MAP_PRIVATE OR MAP_ANONYMOUS) (- 1) 0],
                 errno = 12\<rparr>"]
  note W1 = W [where wst = "answers [failing 0 487, answer 1048576]"
      and ?wst1.0 = "\<lparr>pending = [answer 1048576],
                 calls = [VirtualAlloc 131072 65536 (MEM_RESERVE OR MEM_COMMIT) PAGE_READWRITE],
                 errno = 487\<rparr>"]
  note W2 = W [where wst = "answers [failing 0 487, failing 0 8]"
      and ?wst1.0 = "\<lparr>pending = [failing 0 8],
                 calls = [VirtualAlloc 131072 65536 (MEM_RESERVE OR MEM_COMMIT) PAGE_READWRITE],
                 errno = 487\<rparr>"]
  have 1: "allocateMappedMemory_unix False 4096 100 (Some near) MF_WRITE
       (answers [failing (- 1) 12, answer 1048576])
     = Some (Returns (\<lparr>Address = 1048576, Size = 4096\<rparr>, success),
             \<lparr>pending = [],
                calls = [Mmap 69632 4096 PROT_WRITE (MAP_PRIVATE OR MAP_ANONYMOUS) (- 1) 0,
                         Mmap 0 4096 PROT_WRITE (MAP_PRIVATE OR MAP_ANONYMOUS) (- 1) 0],
                errno = 12\<rparr>)"
    using U1 [THEN conjunct1, rule_format, OF conjI [OF n conjI [OF write_only_posix us]]]
      U1 [THEN conjunct2, THEN conjunct1, rule_format, OF conjI [OF n write_only_posix]]
    by (simp add: uf write_only_not_exec sys_def answer_def MAP_FAILED_def
          del: allocateMappedMemory_unix.simps)
  have 2: "allocateMappedMemory_unix False 4096 100 (Some near) MF_WRITE
       (answers [failing (- 1) 12, failing (- 1) 13])
     = Some (Returns (MemoryBlock0, error_code 13 system_category),
             \<lparr>pending = [],
                calls = [Mmap 69632 4096 PROT_WRITE (MAP_PRIVATE OR MAP_ANONYMOUS) (- 1) 0,
                         Mmap 0 4096 PROT_WRITE (MAP_PRIVATE OR MAP_ANONYMOUS) (- 1) 0],
                errno = 13\<rparr>)"
    using U2 [THEN conjunct1, rule_format, OF conjI [OF n conjI [OF write_only_posix us]]]
      U2 [THEN conjunct2, THEN conjunct1, rule_format, OF conjI [OF n write_only_posix]]
    by (simp add: uf write_only_not_exec sys_def failing_def MAP_FAILED_def
          del: allocateMappedMemory_unix.simps)
  have 3: "allocateMappedMemory_win 65536 100 (Some near) MF_WRITE
       (answers [failing 0 487, answer 1048576])
     = Some (Returns (\<lparr>Address = 1048576, Size = 65536\<rparr>, success),
             \<lparr>pending = [],
                calls = [VirtualAlloc 131072 65536 (MEM_RESERVE OR MEM_COMMIT) PAGE_READWRITE,
                         VirtualAlloc 0 65536 (MEM_RESERVE OR MEM_COMMIT) PAGE_READWRITE],
                errno = 487\<rparr>)"
    using W1 [THEN conjunct2, THEN conjunct2, THEN conjunct2, THEN conjunct1, rule_format,
        OF conjI [OF n conjI [OF write_only_win ws]]]
      W1 [THEN conjunct2, THEN conjunct2, THEN conjunct2, THEN conjunct2, THEN conjunct1,
        rule_format, OF conjI [OF n write_only_win]]
    by (simp add: wf write_only_not_exec sys_def answer_def
          del: allocateMappedMemory_win.simps)
  have 4: "allocateMappedMemory_win 65536 100 (Some near) MF_WRITE
       (answers [failing 0 487, failing 0 8])
     = Some (Returns (MemoryBlock0, error_code 8 system_category),
             \<lparr>pending = [],
                calls = [VirtualAlloc 131072 65536 (MEM_RESERVE OR MEM_COMMIT) PAGE_READWRITE,
                         VirtualAlloc 0 65536 (MEM_RESERVE OR MEM_COMMIT) PAGE_READWRITE],
                errno = 8\<rparr>)"
    using W2 [THEN conjunct2, THEN conjunct2, THEN conjunct2, THEN conjunct1, rule_format,
        OF conjI [OF n conjI [OF write_only_win ws]]]
      W2 [THEN conjunct2, THEN conjunct2, THEN conjunct2, THEN conjunct2, THEN conjunct1,
        rule_format, OF conjI [OF n write_only_win]]
    by (simp add: wf write_only_not_exec sys_def failing_def
          del: allocateMappedMemory_win.simps)
  have 5: "error_code 13 system_category \<noteq> success"
    by (simp add: success_def)
  from 1 2 3 4 5 show ?thesis by (intro conjI)
qed

subsection \<open>Empty blocks\<close>

text \<open>
  C7. \<open>allocateMappedMemory\<close> with size 0 returns the empty block and the success code
  and makes no call; \<open>protectMappedMemory\<close> and \<open>releaseMappedMemory\<close> on a block whose
  address is null or whose size is zero return success and make no call. The state,
  with its log of calls, is the one the function was given. On both backends.
\<close>

theorem empty_block_operations_make_no_call:
  "allocateMappedMemory_unix fb ps 0 nb f st = Some (Returns (MemoryBlock0, success), st) \<and>
   allocateMappedMemory_win g 0 nb f wst = Some (Returns (MemoryBlock0, success), wst) \<and>
   (Address M = 0 \<or> Size M = 0 \<longrightarrow>
      protectMappedMemory_unix fb M f st = Some (Returns success, st) \<and>
      protectMappedMemory_win M f wst = Some (Returns success, wst) \<and>
      releaseMappedMemory_unix M st = Some ((success, M), st) \<and>
      releaseMappedMemory_win M wst = Some ((success, M), wst))"
  by (auto simp: protectMappedMemory_unix_def protectMappedMemory_win_def
        releaseMappedMemory_unix_def releaseMappedMemory_win_def)

theorem empty_block_operations_make_no_call_witness:
  "Size \<lparr>Address = 4096, Size = 0\<rparr> = 0 \<and>
   allocateMappedMemory_unix False 4096 0 (Some near) MF_READ (answers [])
     = Some (Returns (MemoryBlock0, success), answers []) \<and>
   protectMappedMemory_unix False \<lparr>Address = 4096, Size = 0\<rparr> MF_READ (answers [])
     = Some (Returns success, answers []) \<and>
   releaseMappedMemory_unix \<lparr>Address = 4096, Size = 0\<rparr> (answers [])
     = Some ((success, \<lparr>Address = 4096, Size = 0\<rparr>), answers []) \<and>
   protectMappedMemory_win \<lparr>Address = 4096, Size = 0\<rparr> MF_READ (answers [])
     = Some (Returns success, answers []) \<and>
   releaseMappedMemory_win \<lparr>Address = 4096, Size = 0\<rparr> (answers [])
     = Some ((success, \<lparr>Address = 4096, Size = 0\<rparr>), answers [])"
  using empty_block_operations_make_no_call
    [of False 4096 "Some near" MF_READ "answers []" 65536 "answers []"
        "\<lparr>Address = 4096, Size = 0\<rparr>"]
  by simp

subsection \<open>Release\<close>

text \<open>
  C10. When \<open>releaseMappedMemory\<close> is given a non-empty block and the system call that
  frees it succeeds (\<open>munmap\<close> returns 0, \<open>VirtualFree\<close> returns non-zero), the call
  returns success and leaves the caller's block record empty (address 0, size 0); a
  second call on that record returns success and makes no call. On both backends.
\<close>

theorem release_resets_the_block:
  "(Address M \<noteq> 0 \<and> Size M \<noteq> 0 \<and>
    sys (Munmap (Address M) (Size M)) st = Some (r, st1) \<and> ret r = 0 \<longrightarrow>
      releaseMappedMemory_unix M st = Some ((success, MemoryBlock0), st1) \<and>
      releaseMappedMemory_unix MemoryBlock0 st1 = Some ((success, MemoryBlock0), st1)) \<and>
   (Address M \<noteq> 0 \<and> Size M \<noteq> 0 \<and>
    sys (VirtualFree (Address M) 0 MEM_RELEASE) wst = Some (wr, wst1) \<and> ret wr \<noteq> 0 \<longrightarrow>
      releaseMappedMemory_win M wst = Some ((success, MemoryBlock0), wst1) \<and>
      releaseMappedMemory_win MemoryBlock0 wst1 = Some ((success, MemoryBlock0), wst1))"
  by (simp add: releaseMappedMemory_unix_def releaseMappedMemory_win_def MemoryBlock0_def)

theorem release_resets_the_block_witness:
  "releaseMappedMemory_unix near (answers [answer 0])
     = Some ((success, MemoryBlock0),
             \<lparr>pending = [], calls = [Munmap 65536 4096], errno = 0\<rparr>) \<and>
   releaseMappedMemory_unix MemoryBlock0
       \<lparr>pending = [], calls = [Munmap 65536 4096], errno = 0\<rparr>
     = Some ((success, MemoryBlock0),
             \<lparr>pending = [], calls = [Munmap 65536 4096], errno = 0\<rparr>) \<and>
   releaseMappedMemory_win near (answers [answer 1])
     = Some ((success, MemoryBlock0),
             \<lparr>pending = [], calls = [VirtualFree 65536 0 MEM_RELEASE], errno = 0\<rparr>) \<and>
   releaseMappedMemory_win MemoryBlock0
       \<lparr>pending = [], calls = [VirtualFree 65536 0 MEM_RELEASE], errno = 0\<rparr>
     = Some ((success, MemoryBlock0),
             \<lparr>pending = [], calls = [VirtualFree 65536 0 MEM_RELEASE], errno = 0\<rparr>)"
  using release_resets_the_block
    [of near "answers [answer 0]" "answer 0"
        "\<lparr>pending = [], calls = [Munmap 65536 4096], errno = 0\<rparr>"
        "answers [answer 1]" "answer 1"
        "\<lparr>pending = [], calls = [VirtualFree 65536 0 MEM_RELEASE], errno = 0\<rparr>"]
  by (simp add: near_def answers_def answer_def sys_def)

section \<open>Properties of the process engine\<close>

lemmas fixture_defs = answers_def answer_def failing_def writing_def linux_env_def
  linux_strerror_def linux_strsignal_def win_messages_def

lemmas number_defs = ENOENT_def EINTR_def EACCES_def SIGKILL_def SIGALRM_def O_RDONLY_def
  O_WRONLY_def O_CREAT_def F_OK_def mode_0666_def

subsection \<open>Interrupted waits\<close>

text \<open>
  C8, as stated, fails. A wait with a timeout of 5 seconds whose \<open>waitpid\<close> is
  interrupted (\<open>EINTR\<close>) kills the child and reports the timeout, although the answer 4
  of \<open>alarm(0)\<close> says that the engine's own alarm still had 4 seconds to run: the
  interruption was another signal. The code tests only \<open>secondsToWait && errno == EINTR\<close>.
\<close>

theorem other_signal_is_taken_for_the_timeout:
  "Wait_unix linux_env 4242 ''/bin/sleep'' 5 (Some [])
     (answers [answer 0, answer 0, failing (- 1) EINTR, answer 0, answer 4, answer 0,
               writing 4242 9])
   = Some (Returns (- 2, Some ''Child timed out: ''),
           \<lparr>pending = [],
              calls = [Sigaction SIGALRM TimeOutHandler, Alarm 5, Waitpid 4242 0,
                       Kill 4242 SIGKILL, Alarm 0, Sigaction SIGALRM Old, WaitAny],
              errno = EINTR\<rparr>)"
  by (simp add: Wait_unix_def fixture_defs number_defs sys_def MakeErrMsg_def StrError_def)

lemma Wait_unix_retries:
  assumes "HAVE_SYS_WAIT_H env" "Data \<noteq> 0"
    and "pending st = w # rs" "ret w \<noteq> sint (ucast Data :: 32 word)" "sets_err w = Some EINTR"
  shows "Wait_unix env Data Program 0 ErrMsg st
       = Wait_unix env Data Program 0 ErrMsg
           (st\<lparr>pending := rs, calls := calls st @ [Waitpid (sint (ucast Data :: 32 word)) 0],
               errno := EINTR\<rparr>)"
proof -
  have "Wait_loop env (sint (ucast Data :: 32 word)) 0 ErrMsg st
      = Wait_loop env (sint (ucast Data :: 32 word)) 0 ErrMsg
          (st\<lparr>pending := rs, calls := calls st @ [Waitpid (sint (ucast Data :: 32 word)) 0],
               errno := EINTR\<rparr>)"
    using assms by (subst Wait_loop.simps) (simp add: sys_def)
  then show ?thesis using assms(1,2) by (simp add: Wait_unix_def)
qed

lemma Wait_unix_timeout:
  assumes "HAVE_SYS_WAIT_H env" "Data \<noteq> 0" "secondsToWait \<noteq> 0"
    and "pending st = i1 # i2 # w # k # a # s # f # rs"
    and "ret w \<noteq> sint (ucast Data :: 32 word)" "sets_err w = Some EINTR"
  shows "\<exists>st'. Wait_unix env Data Program secondsToWait ErrMsg st
                  = Some (Returns (- 2,
                            if ret f \<noteq> sint (ucast Data :: 32 word)
                            then MakeErrMsg env ErrMsg ''Child timed out but wouldn't die''
                                   (- 1) st'
                            else MakeErrMsg env ErrMsg ''Child timed out'' 0 st'), st') \<and>
           pending st' = rs \<and>
           calls st' = calls st @ [Sigaction SIGALRM TimeOutHandler, Alarm secondsToWait,
                                   Waitpid (sint (ucast Data :: 32 word)) 0,
                                   Kill (sint (ucast Data :: 32 word)) SIGKILL, Alarm 0,
                                   Sigaction SIGALRM Old, WaitAny]"
  using assms
  by (simp add: Wait_unix_def sys_def)

text \<open>
  C8, amended. When no timeout was asked for (\<open>secondsToWait\<close> is 0), a \<open>waitpid\<close>
  that is interrupted (\<open>EINTR\<close>) without returning the child is followed by the same
  blocking wait again: the function goes on as it would from the state the interrupted
  call left. When a timeout was asked for, every such interruption is taken for the
  timeout: the child is sent \<open>SIGKILL\<close>, the alarm is cleared, the handler is
  restored, one \<open>wait()\<close> call follows and the result is -2. That \<open>wait()\<close> takes
  whichever child the system reports: the message is \<open>Child timed out\<close> when it is the
  awaited one and \<open>Child timed out but wouldn't die\<close> otherwise.
\<close>

theorem interrupted_wait:
  "(HAVE_SYS_WAIT_H env \<and> Data \<noteq> 0 \<and> pending st = w # rs \<and>
    ret w \<noteq> sint (ucast Data :: 32 word) \<and> sets_err w = Some EINTR \<longrightarrow>
      Wait_unix env Data Program 0 ErrMsg st
        = Wait_unix env Data Program 0 ErrMsg
            (st\<lparr>pending := rs,
                calls := calls st @ [Waitpid (sint (ucast Data :: 32 word)) 0],
                errno := EINTR\<rparr>)) \<and>
   (HAVE_SYS_WAIT_H env \<and> Data \<noteq> 0 \<and> secondsToWait \<noteq> 0 \<and>
    pending st = i1 # i2 # w # k # a # s # f # rs \<and>
    ret w \<noteq> sint (ucast Data :: 32 word) \<and> sets_err w = Some EINTR \<longrightarrow>
      (\<exists>st'. Wait_unix env Data Program secondsToWait ErrMsg st
                = Some (Returns (- 2,
                          if ret f \<noteq> sint (ucast Data :: 32 word)
                          then MakeErrMsg env ErrMsg ''Child timed out but wouldn't die''
                                 (- 1) st'
                          else MakeErrMsg env ErrMsg ''Child timed out'' 0 st'), st') \<and>
          pending st' = rs \<and>
          calls st' = calls st @ [Sigaction SIGALRM TimeOutHandler, Alarm secondsToWait,
                                  Waitpid (sint (ucast Data :: 32 word)) 0,
                                  Kill (sint (ucast Data :: 32 word)) SIGKILL, Alarm 0,
                                  Sigaction SIGALRM Old, WaitAny]))"
proof (intro conjI impI)
  assume a: "HAVE_SYS_WAIT_H env \<and> Data \<noteq> 0 \<and> pending st = w # rs \<and>
    ret w \<noteq> sint (ucast Data :: 32 word) \<and> sets_err w = Some EINTR"
  then show "Wait_unix env Data Program 0 ErrMsg st
        = Wait_unix env Data Program 0 ErrMsg
            (st\<lparr>pending := rs,
                calls := calls st @ [Waitpid (sint (ucast Data :: 32 word)) 0],
                errno := EINTR\<rparr>)"
    using Wait_unix_retries [of env Data st w rs Program ErrMsg] by blast
next
  assume a: "HAVE_SYS_WAIT_H env \<and> Data \<noteq> 0 \<and> secondsToWait \<noteq> 0 \<and>
    pending st = i1 # i2 # w # k # a # s # f # rs \<and>
    ret w \<noteq> sint (ucast Data :: 32 word) \<and> sets_err w = Some EINTR"
  then show "\<exists>st'. Wait_unix env Data Program secondsToWait ErrMsg st
                = Some (Returns (- 2,
                          if ret f \<noteq> sint (ucast Data :: 32 word)
                          then MakeErrMsg env ErrMsg ''Child timed out but wouldn't die''
                                 (- 1) st'
                          else MakeErrMsg env ErrMsg ''Child timed out'' 0 st'), st') \<and>
          pending st' = rs \<and>
          calls st' = calls st @ [Sigaction SIGALRM TimeOutHandler, Alarm secondsToWait,
                                  Waitpid (sint (ucast Data :: 32 word)) 0,
                                  Kill (sint (ucast Data :: 32 word)) SIGKILL, Alarm 0,
                                  Sigaction SIGALRM Old, WaitAny]"
    using Wait_unix_timeout [of env Data secondsToWait st i1 i2 w k a s f rs Program ErrMsg]
    by blast
qed

theorem interrupted_wait_witness:
  "HAVE_SYS_WAIT_H linux_env \<and> (4242 :: 64 word) \<noteq> 0 \<and>
   ret (failing (- 1) EINTR) \<noteq> sint (ucast (4242 :: 64 word) :: 32 word) \<and>
   sets_err (failing (- 1) EINTR) = Some EINTR \<and>
   Wait_unix linux_env 4242 ''/bin/tool'' 0 (Some [])
     (answers [failing (- 1) EINTR, writing 4242 768])
   = Wait_unix linux_env 4242 ''/bin/tool'' 0 (Some [])
       \<lparr>pending = [writing 4242 768], calls = [Waitpid 4242 0], errno = EINTR\<rparr> \<and>
   Wait_unix linux_env 4242 ''/bin/tool'' 0 (Some [])
     (answers [failing (- 1) EINTR, writing 4242 768])
   = Some (Returns (3, Some []),
           \<lparr>pending = [], calls = [Waitpid 4242 0, Waitpid 4242 0], errno = EINTR\<rparr>) \<and>
   (\<exists>st'. Wait_unix linux_env 4242 ''/bin/tool'' 5 (Some [])
            (answers [answer 0, answer 0, failing (- 1) EINTR, answer 0, answer 0, answer 0,
                      writing 77 0])
          = Some (Returns (- 2, Some ''Child timed out but wouldn't die: Interrupted system call''),
                  st') \<and>
          pending st' = [] \<and>
          calls st' = [Sigaction SIGALRM TimeOutHandler, Alarm 5, Waitpid 4242 0,
                       Kill 4242 SIGKILL, Alarm 0, Sigaction SIGALRM Old, WaitAny])"
proof -
  have h: "HAVE_SYS_WAIT_H linux_env \<and> (4242 :: 64 word) \<noteq> 0 \<and>
      pending (answers [failing (- 1) EINTR, writing 4242 768] :: posix_request os_state)
        = failing (- 1) EINTR # [writing 4242 768] \<and>
      ret (failing (- 1) EINTR) \<noteq> sint (ucast (4242 :: 64 word) :: 32 word) \<and>
      sets_err (failing (- 1) EINTR) = Some EINTR"
    by (simp add: fixture_defs)
  have step: "Wait_unix linux_env 4242 ''/bin/tool'' 0 (Some [])
       (answers [failing (- 1) EINTR, writing 4242 768])
     = Wait_unix linux_env 4242 ''/bin/tool'' 0 (Some [])
         \<lparr>pending = [writing 4242 768], calls = [Waitpid 4242 0], errno = EINTR\<rparr>"
    using interrupted_wait [THEN conjunct1, rule_format, OF h, of "''/bin/tool''" "Some []"]
    by (simp add: answers_def)
  have run: "Wait_unix linux_env 4242 ''/bin/tool'' 0 (Some [])
         \<lparr>pending = [writing 4242 768], calls = [Waitpid 4242 0], errno = EINTR\<rparr>
     = Some (Returns (3, Some []),
           \<lparr>pending = [], calls = [Waitpid 4242 0, Waitpid 4242 0], errno = EINTR\<rparr>)"
    by (simp add: Wait_unix_def Wait_status_def fixture_defs number_defs sys_def
          WIFEXITED_def WEXITSTATUS_def WTERMSIG_def)
  have h2: "HAVE_SYS_WAIT_H linux_env \<and> (4242 :: 64 word) \<noteq> 0 \<and> (5 :: 32 word) \<noteq> 0 \<and>
      pending (answers [answer 0, answer 0, failing (- 1) EINTR, answer 0, answer 0, answer 0,
                        writing 77 0] :: posix_request os_state)
        = answer 0 # answer 0 # failing (- 1) EINTR # answer 0 # answer 0 # answer 0 #
          writing 77 0 # [] \<and>
      ret (failing (- 1) EINTR) \<noteq> sint (ucast (4242 :: 64 word) :: 32 word) \<and>
      sets_err (failing (- 1) EINTR) = Some EINTR"
    by (simp add: fixture_defs)
  from interrupted_wait [THEN conjunct2, rule_format, OF h2, of "''/bin/tool''" "Some []"]
  obtain st' where
    e: "Wait_unix linux_env 4242 ''/bin/tool'' 5 (Some [])
            (answers [answer 0, answer 0, failing (- 1) EINTR, answer 0, answer 0, answer 0,
                      writing 77 0])
          = Some (Returns (- 2,
                    if ret (writing 77 0) \<noteq> sint (ucast (4242 :: 64 word) :: 32 word)
                    then MakeErrMsg linux_env (Some []) ''Child timed out but wouldn't die''
                           (- 1) st'
                    else MakeErrMsg linux_env (Some []) ''Child timed out'' 0 st'), st')"
    and p: "pending st' = []"
    and c: "calls st' = calls (answers [answer 0, answer 0, failing (- 1) EINTR, answer 0,
                                        answer 0, answer 0, writing 77 0])
                        @ [Sigaction SIGALRM TimeOutHandler, Alarm 5,
                           Waitpid (sint (ucast (4242 :: 64 word) :: 32 word)) 0,
                           Kill (sint (ucast (4242 :: 64 word) :: 32 word)) SIGKILL, Alarm 0,
                           Sigaction SIGALRM Old, WaitAny]"
    by blast
  have r2: "Wait_unix linux_env 4242 ''/bin/tool'' 5 (Some [])
            (answers [answer 0, answer 0, failing (- 1) EINTR, answer 0, answer 0, answer 0,
                      writing 77 0])
        = Some (Returns (- 2, Some ''Child timed out but wouldn't die: Interrupted system call''),
              \<lparr>pending = [],
                 calls = [Sigaction SIGALRM TimeOutHandler, Alarm 5, Waitpid 4242 0,
                       Kill 4242 SIGKILL, Alarm 0, Sigaction SIGALRM Old, WaitAny],
                 errno = EINTR\<rparr>)"
    by (simp add: Wait_unix_def fixture_defs number_defs sys_def MakeErrMsg_def StrError_def)
  from e r2 have m: "Wait_unix linux_env 4242 ''/bin/tool'' 5 (Some [])
            (answers [answer 0, answer 0, failing (- 1) EINTR, answer 0, answer 0, answer 0,
                      writing 77 0])
          = Some (Returns (- 2, Some ''Child timed out but wouldn't die: Interrupted system call''),
                  st')"
    by simp
  from c have c': "calls st' = [Sigaction SIGALRM TimeOutHandler, Alarm 5, Waitpid 4242 0,
                       Kill 4242 SIGKILL, Alarm 0, Sigaction SIGALRM Old, WaitAny]"
    by (simp add: answers_def)
  from m p c' have t: "\<exists>st'. Wait_unix linux_env 4242 ''/bin/tool'' 5 (Some [])
            (answers [answer 0, answer 0, failing (- 1) EINTR, answer 0, answer 0, answer 0,
                      writing 77 0])
          = Some (Returns (- 2, Some ''Child timed out but wouldn't die: Interrupted system call''),
                  st') \<and>
          pending st' = [] \<and>
          calls st' = [Sigaction SIGALRM TimeOutHandler, Alarm 5, Waitpid 4242 0,
                       Kill 4242 SIGKILL, Alarm 0, Sigaction SIGALRM Old, WaitAny]"
    by blast
  from h step run t show ?thesis by simp
qed

subsection \<open>Timeouts\<close>

text \<open>
  C3, at the input where the Windows backend departs from it. The wait times out,
  \<open>TerminateProcess(hProcess, 1)\<close> succeeds, the second wait returns, and the exit code
  the system then reports is the 1 the engine passed to \<open>TerminateProcess\<close>:
  \<open>Wait\<close> returns 1, the value it returns for a program that exited with code 1, not -2.
\<close>

theorem windows_timeout_returns_the_exit_code:
  "Wait_win win_messages \<lparr>hProcess = 100, dwProcessId = 4242\<rparr> 5 (Some [])
     (answers [answer WAIT_TIMEOUT, answer 1, answer 0, writing 1 1, answer 1])
   = Some ((1, Some []),
           \<lparr>pending = [],
              calls = [WaitForSingleObject 100 5000, TerminateProcess 100 1,
                       WaitForSingleObject 100 INFINITE, GetExitCodeProcess 100,
                       CloseHandle 100],
              errno = 0\<rparr>)"
  by (simp add: Wait_win_def WaitAux_def fixture_defs sys_def WAIT_TIMEOUT_def INFINITE_def)

subsection \<open>Exit status\<close>

text \<open>
  C2, as stated, fails. In a build with \<open>posix_spawn\<close>, a child that exits with code 127
  while the program path exists (\<open>access\<close> returns 0) is reported with the text of
  code 126, not with the text of \<open>ENOENT\<close>.
\<close>

theorem exit_127_of_an_existing_program:
  "Wait_unix linux_env 4242 ''/bin/tool'' 0 (Some [])
     (answers [writing 4242 32512, answer 0])
   = Some (Returns (- 1, Some ''Program could not be executed''),
           \<lparr>pending = [], calls = [Waitpid 4242 0, Access ''/bin/tool'' F_OK],
              errno = 0\<rparr>) \<and>
   WIFEXITED 32512 \<and> WEXITSTATUS 32512 = 127 \<and>
   StrError linux_env ENOENT = ''No such file or directory''"
  by (simp add: Wait_unix_def Wait_status_def exists_unix_def fixture_defs number_defs sys_def
        WIFEXITED_def WEXITSTATUS_def WTERMSIG_def StrError_def success_def)

lemma Wait_status_exited:
  assumes "WIFEXITED s" "WEXITSTATUS s \<noteq> 127" "WEXITSTATUS s \<noteq> 126"
  shows "Wait_status env P s E st = Some ((WEXITSTATUS s, E), st)"
  using assms by (simp add: Wait_status_def)

lemma Wait_status_126:
  assumes "WIFEXITED s" "WEXITSTATUS s = 126"
  shows "Wait_status env P s E st
       = Some ((- 1, map_option (\<lambda>old. ''Program could not be executed'') E), st)"
  using assms by (simp add: Wait_status_def)

lemma Wait_status_127_fork:
  assumes "WIFEXITED s" "WEXITSTATUS s = 127" "\<not> HAVE_POSIX_SPAWN env"
  shows "Wait_status env P s E st = Some ((- 1, map_option (\<lambda>old. StrError env ENOENT) E), st)"
  using assms by (simp add: Wait_status_def)

lemma Wait_status_127_spawn:
  assumes "WIFEXITED s" "WEXITSTATUS s = 127" "HAVE_POSIX_SPAWN env" "pending st = x # rs"
  shows "\<exists>st'. Wait_status env P s E st
       = Some ((- 1, map_option (\<lambda>old. if ret x \<noteq> - 1 then ''Program could not be executed''
                                        else StrError env ENOENT) E), st')"
  using assms by (simp add: Wait_status_def exists_unix_def sys_def success_def)

lemma Wait_status_signaled:
  assumes "WIFSIGNALED s"
  shows "Wait_status env P s E st
       = Some ((- 2, map_option (\<lambda>old. strsignal env (WTERMSIG s)
                                    @ (if HAVE_WCOREDUMP env \<and> WCOREDUMP s
                                       then '' (core dumped)'' else [])) E), st)"
  using assms by (auto simp: Wait_status_def WIFSIGNALED_def WIFEXITED_def)

lemma Wait_unix_reaped:
  assumes "HAVE_SYS_WAIT_H env" "Data \<noteq> 0" "ret w = sint (ucast Data :: 32 word)"
    and "pending st = (if secondsToWait \<noteq> 0 then [i1, i2] else []) @ w
                       # (if secondsToWait \<noteq> 0 then [j1, j2] else []) @ rs"
  shows "\<exists>stX. pending stX = rs \<and>
           Wait_unix env Data Program secondsToWait ErrMsg st
             = Option.bind (Wait_status env Program (out w) ErrMsg stX)
                 (\<lambda>(v, st6). Some (Returns v, st6))"
proof (cases "secondsToWait = 0")
  case True
  with assms show ?thesis
    apply (simp add: Wait_unix_def sys_def)
    apply (rule exI, rule conjI)
     prefer 2
     apply (rule refl)
    apply simp
    done
next
  case False
  with assms show ?thesis
    apply (simp add: Wait_unix_def sys_def)
    apply (rule exI, rule conjI)
     prefer 2
     apply (rule refl)
    apply simp
    done
qed

text \<open>
  C2, amended. When the blocking \<open>waitpid\<close> of \<open>Wait\<close> returns the child (with a timeout
  the two calls that arm the alarm come before it and the two that disarm it after):
  a normal exit with a code from 0 to 125 is returned as that code; code 126 gives -1
  with the text "Program could not be executed"; code 127 gives -1 with the text of
  \<open>ENOENT\<close>, except that a build with \<open>posix_spawn\<close> then asks whether the program path
  exists and, when \<open>access\<close> does not fail, gives the text of code 126 instead; a child
  ended by a signal gives -2 with the name of the signal, followed by " (core dumped)"
  when \<open>WCOREDUMP\<close> is available and set. The text is written only when the caller
  passed a string.
\<close>

theorem wait_classifies_the_status:
  "HAVE_SYS_WAIT_H env \<and> Data \<noteq> 0 \<and> ret w = sint (ucast Data :: 32 word) \<and>
   pending st = (if secondsToWait \<noteq> 0 then [i1, i2] else []) @ w
                  # (if secondsToWait \<noteq> 0 then [j1, j2] else []) @ rs \<longrightarrow>
     (WIFEXITED (out w) \<and> 0 \<le> WEXITSTATUS (out w) \<and> WEXITSTATUS (out w) \<le> 125 \<longrightarrow>
        (\<exists>st'. Wait_unix env Data Program secondsToWait ErrMsg st
                = Some (Returns (WEXITSTATUS (out w), ErrMsg), st'))) \<and>
     (WIFEXITED (out w) \<and> WEXITSTATUS (out w) = 126 \<longrightarrow>
        (\<exists>st'. Wait_unix env Data Program secondsToWait ErrMsg st
                = Some (Returns (- 1, map_option (\<lambda>old. ''Program could not be executed'')
                                        ErrMsg), st'))) \<and>
     (WIFEXITED (out w) \<and> WEXITSTATUS (out w) = 127 \<and> \<not> HAVE_POSIX_SPAWN env \<longrightarrow>
        (\<exists>st'. Wait_unix env Data Program secondsToWait ErrMsg st
                = Some (Returns (- 1, map_option (\<lambda>old. StrError env ENOENT) ErrMsg), st'))) \<and>
     (WIFEXITED (out w) \<and> WEXITSTATUS (out w) = 127 \<and> HAVE_POSIX_SPAWN env \<and>
      rs = x # rs' \<longrightarrow>
        (\<exists>st'. Wait_unix env Data Program secondsToWait ErrMsg st
                = Some (Returns (- 1, map_option
                                        (\<lambda>old. if ret x \<noteq> - 1
                                               then ''Program could not be executed''
                                               else StrError env ENOENT) ErrMsg), st'))) \<and>
     (WIFSIGNALED (out w) \<longrightarrow>
        (\<exists>st'. Wait_unix env Data Program secondsToWait ErrMsg st
                = Some (Returns (- 2, map_option
                                        (\<lambda>old. strsignal env (WTERMSIG (out w))
                                               @ (if HAVE_WCOREDUMP env \<and> WCOREDUMP (out w)
                                                  then '' (core dumped)'' else [])) ErrMsg),
                        st')))"
proof (intro impI)
  assume a: "HAVE_SYS_WAIT_H env \<and> Data \<noteq> 0 \<and> ret w = sint (ucast Data :: 32 word) \<and>
   pending st = (if secondsToWait \<noteq> 0 then [i1, i2] else []) @ w
                  # (if secondsToWait \<noteq> 0 then [j1, j2] else []) @ rs"
  then obtain stX where p: "pending stX = rs"
    and eq: "Wait_unix env Data Program secondsToWait ErrMsg st
             = Option.bind (Wait_status env Program (out w) ErrMsg stX)
                 (\<lambda>(v, st6). Some (Returns v, st6))"
    using Wait_unix_reaped [of env Data w st secondsToWait i1 i2 j1 j2 rs Program ErrMsg]
    by blast
  show "(WIFEXITED (out w) \<and> 0 \<le> WEXITSTATUS (out w) \<and> WEXITSTATUS (out w) \<le> 125 \<longrightarrow>
        (\<exists>st'. Wait_unix env Data Program secondsToWait ErrMsg st
                = Some (Returns (WEXITSTATUS (out w), ErrMsg), st'))) \<and>
     (WIFEXITED (out w) \<and> WEXITSTATUS (out w) = 126 \<longrightarrow>
        (\<exists>st'. Wait_unix env Data Program secondsToWait ErrMsg st
                = Some (Returns (- 1, map_option (\<lambda>old. ''Program could not be executed'')
                                        ErrMsg), st'))) \<and>
     (WIFEXITED (out w) \<and> WEXITSTATUS (out w) = 127 \<and> \<not> HAVE_POSIX_SPAWN env \<longrightarrow>
        (\<exists>st'. Wait_unix env Data Program secondsToWait ErrMsg st
                = Some (Returns (- 1, map_option (\<lambda>old. StrError env ENOENT) ErrMsg), st'))) \<and>
     (WIFEXITED (out w) \<and> WEXITSTATUS (out w) = 127 \<and> HAVE_POSIX_SPAWN env \<and>
      rs = x # rs' \<longrightarrow>
        (\<exists>st'. Wait_unix env Data Program secondsToWait ErrMsg st
                = Some (Returns (- 1, map_option
                                        (\<lambda>old. if ret x \<noteq> - 1
                                               then ''Program could not be executed''
                                               else StrError env ENOENT) ErrMsg), st'))) \<and>
     (WIFSIGNALED (out w) \<longrightarrow>
        (\<exists>st'. Wait_unix env Data Program secondsToWait ErrMsg st
                = Some (Returns (- 2, map_option
                                        (\<lambda>old. strsignal env (WTERMSIG (out w))
                                               @ (if HAVE_WCOREDUMP env \<and> WCOREDUMP (out w)
                                                  then '' (core dumped)'' else [])) ErrMsg),
                        st')))"
  proof (intro conjI impI)
    assume "WIFEXITED (out w) \<and> 0 \<le> WEXITSTATUS (out w) \<and> WEXITSTATUS (out w) \<le> 125"
    then show "\<exists>st'. Wait_unix env Data Program secondsToWait ErrMsg st
                = Some (Returns (WEXITSTATUS (out w), ErrMsg), st')"
      by (simp add: eq Wait_status_exited)
  next
    assume "WIFEXITED (out w) \<and> WEXITSTATUS (out w) = 126"
    then show "\<exists>st'. Wait_unix env Data Program secondsToWait ErrMsg st
                = Some (Returns (- 1, map_option (\<lambda>old. ''Program could not be executed'')
                                        ErrMsg), st')"
      by (simp add: eq Wait_status_126)
  next
    assume "WIFEXITED (out w) \<and> WEXITSTATUS (out w) = 127 \<and> \<not> HAVE_POSIX_SPAWN env"
    then show "\<exists>st'. Wait_unix env Data Program secondsToWait ErrMsg st
                = Some (Returns (- 1, map_option (\<lambda>old. StrError env ENOENT) ErrMsg), st')"
      by (simp add: eq Wait_status_127_fork)
  next
    assume b: "WIFEXITED (out w) \<and> WEXITSTATUS (out w) = 127 \<and> HAVE_POSIX_SPAWN env \<and>
      rs = x # rs'"
    with p have "pending stX = x # rs'" by simp
    from Wait_status_127_spawn [OF _ _ _ this, of "out w" env Program ErrMsg] b
    show "\<exists>st'. Wait_unix env Data Program secondsToWait ErrMsg st
                = Some (Returns (- 1, map_option
                                        (\<lambda>old. if ret x \<noteq> - 1
                                               then ''Program could not be executed''
                                               else StrError env ENOENT) ErrMsg), st')"
      by (auto simp: eq)
  next
    assume "WIFSIGNALED (out w)"
    then show "\<exists>st'. Wait_unix env Data Program secondsToWait ErrMsg st
                = Some (Returns (- 2, map_option
                                        (\<lambda>old. strsignal env (WTERMSIG (out w))
                                               @ (if HAVE_WCOREDUMP env \<and> WCOREDUMP (out w)
                                                  then '' (core dumped)'' else [])) ErrMsg),
                        st')"
      by (simp add: eq Wait_status_signaled)
  qed
qed


theorem wait_classifies_the_status_witness:
  "HAVE_SYS_WAIT_H linux_env \<and> (4242 :: 64 word) \<noteq> 0 \<and>
   ret (writing 4242 768) = sint (ucast (4242 :: 64 word) :: 32 word) \<and>
   WIFEXITED (out (writing 4242 768)) \<and> WEXITSTATUS (out (writing 4242 768)) = 3 \<and>
   (\<exists>st'. Wait_unix linux_env 4242 ''/bin/tool'' 0 (Some []) (answers [writing 4242 768])
            = Some (Returns (3, Some []), st'))"
proof -
  have h: "HAVE_SYS_WAIT_H linux_env \<and> (4242 :: 64 word) \<noteq> 0 \<and>
      ret (writing 4242 768) = sint (ucast (4242 :: 64 word) :: 32 word) \<and>
      pending (answers [writing 4242 768] :: posix_request os_state)
        = (if (0 :: 32 word) \<noteq> 0 then [answer 0, answer 0] else []) @ writing 4242 768
            # (if (0 :: 32 word) \<noteq> 0 then [answer 0, answer 0] else []) @ []"
    by (simp add: fixture_defs)
  have e: "WIFEXITED (out (writing 4242 768)) \<and> 0 \<le> WEXITSTATUS (out (writing 4242 768)) \<and>
      WEXITSTATUS (out (writing 4242 768)) \<le> 125"
    and v: "WEXITSTATUS (out (writing 4242 768)) = 3"
    by (simp_all add: writing_def WIFEXITED_def WEXITSTATUS_def WTERMSIG_def)
  from wait_classifies_the_status [rule_format, OF h, THEN conjunct1, rule_format, OF e,
      of "''/bin/tool''" "Some []"] h e v
  show ?thesis by simp
qed

subsection \<open>The executability check\<close>

text \<open>
  C1, as stated, fails on the POSIX backend. With \<open>fork\<close> answering a process id,
  \<open>Execute\<close> returns true and the only call made is \<open>fork\<close>: the process exists and
  nothing checked the program. The second run is the child of that fork (\<open>fork\<close> answers
  0): \<open>execv\<close> fails with \<open>EACCES\<close>, so the program was not executable, and the child
  exits with code 126. The third run is the \<open>posix_spawn\<close> path: one call, the spawn.
\<close>

theorem posix_execute_starts_a_program_that_cannot_run:
  "Execute_unix (linux_env\<lparr>HAVE_POSIX_SPAWN := False\<rparr>) (Some 0) ''/tmp/notes.txt''
     [''/tmp/notes.txt''] None None 0 (Some []) (answers [answer 4242])
   = Some (Returns (True, Some 4242, Some []),
           \<lparr>pending = [], calls = [Fork], errno = 0\<rparr>) \<and>
   Execute_unix (linux_env\<lparr>HAVE_POSIX_SPAWN := False\<rparr>) (Some 0) ''/tmp/notes.txt''
     [''/tmp/notes.txt''] None None 0 (Some []) (answers [answer 0, failing (- 1) EACCES])
   = Some (Exited 126,
           \<lparr>pending = [], calls = [Fork, Execv ''/tmp/notes.txt'' [''/tmp/notes.txt'']],
              errno = EACCES\<rparr>) \<and>
   Execute_unix linux_env (Some 0) ''/tmp/notes.txt''
     [''/tmp/notes.txt''] None None 0 (Some []) (answers [writing 0 4242])
   = Some (Returns (True, Some 4242, Some []),
           \<lparr>pending = [],
              calls = [PosixSpawn ''/tmp/notes.txt'' False [''/tmp/notes.txt''] [''PATH=/usr/bin'']],
              errno = 0\<rparr>)"
  by (simp add: Execute_unix_def fixture_defs number_defs sys_def)

lemma can_execute_win_calls:
  assumes "can_execute_win P st = Some (b, st1)"
  shows "filter creates_process (new_calls st st1) = []"
  using assms
  by (auto simp: can_execute_win_def UTF8ToUTF16_def new_calls_def sys_Some_iff
      split: if_splits Option.bind_splits)

lemma Execute_win_refuses:
  assumes "can_execute_win P st = Some (False, st1)"
  shows "Execute_win fm Data P args envp redirects ml E st
       = Some ((False, Data, map_option (\<lambda>old. ''program not executable'') E), st1)"
  using assms by (simp add: Execute_win_def)

lemma Execute_unix_forks:
  assumes "\<not> (HAVE_POSIX_SPAWN env \<and> ml = 0)" "sys Fork st = Some (r, st1)"
    "ret r \<noteq> - 1" "ret r \<noteq> 0"
  shows "Execute_unix env Data P args envp redirects ml E st
       = Some (Returns (True, map_option (\<lambda>old. word_of_int (ret r)) Data, E), st1)"
  using assms by (auto simp: Execute_unix_def)

lemma Execute_unix_spawns:
  assumes "HAVE_POSIX_SPAWN env"
    "sys (PosixSpawn P False args (case envp of None \<Rightarrow> environ env | Some e \<Rightarrow> e)) st
       = Some (r, st1)" "ret r = 0"
  shows "Execute_unix env Data P args envp None 0 E st
       = Some (Returns (True, map_option (\<lambda>old. word_of_int (out r)) Data, E), st1)"
  using assms by (simp add: Execute_unix_def)

lemma Execute_unix_child_exec_fails:
  assumes "\<not> HAVE_POSIX_SPAWN env" "pending st = f # x # rs" "ret f = 0" "ret x = - 1"
    "sets_err x = Some e"
  shows "\<exists>st'. Execute_unix env Data P args envp None 0 E st
       = Some (Exited (if e = ENOENT then 127 else 126), st')"
  using assms by (cases envp) (simp_all add: Execute_unix_def sys_def)

text \<open>
  C1, amended. On the Windows backend, when \<open>fs::can_execute\<close> is false for the program,
  \<open>Execute\<close> returns false with the message "program not executable" and has made no
  call but those of the check: no \<open>CreateProcessA\<close>. On the POSIX backend \<open>Execute\<close>
  makes no check: when \<open>fork\<close> answers a process id it returns true having made that one
  call, and so it does when \<open>posix_spawn\<close> (no redirections) answers 0; in the forked
  child a failing \<open>exec\<close> ends the child with code 127 when the error is \<open>ENOENT\<close>
  and 126 otherwise.
\<close>

theorem executability_is_checked_on_windows:
  "(can_execute_win Program wst = Some (False, wst1) \<longrightarrow>
      Execute_win fm wData Program args envp redirects memoryLimit ErrMsg wst
        = Some ((False, wData, map_option (\<lambda>old. ''program not executable'') ErrMsg), wst1) \<and>
      filter creates_process (new_calls wst wst1) = []) \<and>
   (\<not> (HAVE_POSIX_SPAWN env \<and> memoryLimit = 0) \<and> sys Fork st = Some (r, st1) \<and>
    ret r \<noteq> - 1 \<and> ret r \<noteq> 0 \<longrightarrow>
      Execute_unix env Data Program args envp redirects memoryLimit ErrMsg st
        = Some (Returns (True, map_option (\<lambda>old. word_of_int (ret r)) Data, ErrMsg), st1)) \<and>
   (HAVE_POSIX_SPAWN env \<and>
    sys (PosixSpawn Program False args (case envp of None \<Rightarrow> environ env | Some e \<Rightarrow> e)) st
      = Some (r, st1) \<and> ret r = 0 \<longrightarrow>
      Execute_unix env Data Program args envp None 0 ErrMsg st
        = Some (Returns (True, map_option (\<lambda>old. word_of_int (out r)) Data, ErrMsg), st1)) \<and>
   (\<not> HAVE_POSIX_SPAWN env \<and> pending st = f # x # rs \<and> ret f = 0 \<and> ret x = - 1 \<and>
    sets_err x = Some e \<longrightarrow>
      (\<exists>st'. Execute_unix env Data Program args envp None 0 ErrMsg st
               = Some (Exited (if e = ENOENT then 127 else 126), st')))"
proof (intro conjI impI)
  assume "can_execute_win Program wst = Some (False, wst1)"
  then show "Execute_win fm wData Program args envp redirects memoryLimit ErrMsg wst
        = Some ((False, wData, map_option (\<lambda>old. ''program not executable'') ErrMsg), wst1)"
    by (rule Execute_win_refuses)
next
  assume "can_execute_win Program wst = Some (False, wst1)"
  then show "filter creates_process (new_calls wst wst1) = []"
    by (rule can_execute_win_calls)
next
  assume "\<not> (HAVE_POSIX_SPAWN env \<and> memoryLimit = 0) \<and> sys Fork st = Some (r, st1) \<and>
    ret r \<noteq> - 1 \<and> ret r \<noteq> 0"
  then show "Execute_unix env Data Program args envp redirects memoryLimit ErrMsg st
        = Some (Returns (True, map_option (\<lambda>old. word_of_int (ret r)) Data, ErrMsg), st1)"
    using Execute_unix_forks [of env memoryLimit st r st1 Data Program args envp redirects ErrMsg]
    by blast
next
  assume "HAVE_POSIX_SPAWN env \<and>
    sys (PosixSpawn Program False args (case envp of None \<Rightarrow> environ env | Some e \<Rightarrow> e)) st
      = Some (r, st1) \<and> ret r = 0"
  then show "Execute_unix env Data Program args envp None 0 ErrMsg st
        = Some (Returns (True, map_option (\<lambda>old. word_of_int (out r)) Data, ErrMsg), st1)"
    using Execute_unix_spawns [of env Program args envp st r st1 Data ErrMsg]
    by blast
next
  assume "\<not> HAVE_POSIX_SPAWN env \<and> pending st = f # x # rs \<and> ret f = 0 \<and> ret x = - 1 \<and>
    sets_err x = Some e"
  then show "\<exists>st'. Execute_unix env Data Program args envp None 0 ErrMsg st
               = Some (Exited (if e = ENOENT then 127 else 126), st')"
    using Execute_unix_child_exec_fails [of env st f x rs e Data Program args envp ErrMsg]
    by blast
qed

theorem executability_is_checked_on_windows_witness:
  "can_execute_win ''tool.exe'' (answers [answer 9, answer 9, answer (- 1)])
     = Some (False,
             \<lparr>pending = [],
                calls = [MultiByteToWideChar ''tool.exe'' 0, MultiByteToWideChar ''tool.exe'' 9,
                         GetFileAttributesW ''tool.exe''],
                errno = 0\<rparr>) \<and>
   Execute_win win_messages (Some None) ''tool.exe'' [''tool.exe''] None None 0 (Some [])
     (answers [answer 9, answer 9, answer (- 1)])
     = Some ((False, Some None, Some ''program not executable''),
             \<lparr>pending = [],
                calls = [MultiByteToWideChar ''tool.exe'' 0, MultiByteToWideChar ''tool.exe'' 9,
                         GetFileAttributesW ''tool.exe''],
                errno = 0\<rparr>) \<and>
   Execute_unix (linux_env\<lparr>HAVE_POSIX_SPAWN := False\<rparr>) (Some 0) ''/tmp/data.bin''
     [''/tmp/data.bin''] None None 0 (Some []) (answers [answer 4343])
     = Some (Returns (True, Some 4343, Some []),
             \<lparr>pending = [], calls = [Fork], errno = 0\<rparr>) \<and>
   Execute_unix linux_env (Some 0) ''/tmp/data.bin''
     [''/tmp/data.bin''] None None 0 (Some []) (answers [writing 0 4343])
     = Some (Returns (True, Some 4343, Some []),
             \<lparr>pending = [],
                calls = [PosixSpawn ''/tmp/data.bin'' False [''/tmp/data.bin'']
                           [''PATH=/usr/bin'']],
                errno = 0\<rparr>) \<and>
   (\<exists>st'. Execute_unix (linux_env\<lparr>HAVE_POSIX_SPAWN := False\<rparr>) (Some 0) ''/tmp/data.bin''
            [''/tmp/data.bin''] None None 0 (Some [])
            (answers [answer 0, failing (- 1) EACCES])
          = Some (Exited 126, st'))"
proof -
  have c: "can_execute_win ''tool.exe'' (answers [answer 9, answer 9, answer (- 1)])
     = Some (False,
             \<lparr>pending = [],
                calls = [MultiByteToWideChar ''tool.exe'' 0, MultiByteToWideChar ''tool.exe'' 9,
                         GetFileAttributesW ''tool.exe''],
                errno = 0\<rparr>)"
    by (simp add: can_execute_win_def UTF8ToUTF16_def fixture_defs sys_def
          INVALID_FILE_ATTRIBUTES_def)
  from executability_is_checked_on_windows [THEN conjunct1, rule_format, OF c,
      of win_messages "Some None" "[''tool.exe'']" None None 0 "Some []"]
  have w: "Execute_win win_messages (Some None) ''tool.exe'' [''tool.exe''] None None 0 (Some [])
     (answers [answer 9, answer 9, answer (- 1)])
     = Some ((False, Some None, Some ''program not executable''),
             \<lparr>pending = [],
                calls = [MultiByteToWideChar ''tool.exe'' 0, MultiByteToWideChar ''tool.exe'' 9,
                         GetFileAttributesW ''tool.exe''],
                errno = 0\<rparr>)"
    by simp
  have hf: "\<not> (HAVE_POSIX_SPAWN (linux_env\<lparr>HAVE_POSIX_SPAWN := False\<rparr>) \<and> (0 :: 32 word) = 0) \<and>
      sys Fork (answers [answer 4343])
        = Some (answer 4343, \<lparr>pending = [], calls = [Fork], errno = 0\<rparr>) \<and>
      ret (answer 4343) \<noteq> - 1 \<and> ret (answer 4343) \<noteq> 0"
    by (simp add: fixture_defs sys_def)
  from executability_is_checked_on_windows [THEN conjunct2, THEN conjunct1, rule_format, OF hf,
      of "Some 0" "''/tmp/data.bin''" "[''/tmp/data.bin'']" None None "Some []"]
  have f: "Execute_unix (linux_env\<lparr>HAVE_POSIX_SPAWN := False\<rparr>) (Some 0) ''/tmp/data.bin''
     [''/tmp/data.bin''] None None 0 (Some []) (answers [answer 4343])
     = Some (Returns (True, Some 4343, Some []),
             \<lparr>pending = [], calls = [Fork], errno = 0\<rparr>)"
    by (simp add: answer_def)
  have hs: "HAVE_POSIX_SPAWN linux_env \<and>
      sys (PosixSpawn ''/tmp/data.bin'' False [''/tmp/data.bin'']
             (case None of None \<Rightarrow> environ linux_env | Some e \<Rightarrow> e)) (answers [writing 0 4343])
        = Some (writing 0 4343,
                \<lparr>pending = [],
                   calls = [PosixSpawn ''/tmp/data.bin'' False [''/tmp/data.bin'']
                              [''PATH=/usr/bin'']],
                   errno = 0\<rparr>) \<and>
      ret (writing 0 4343) = 0"
    by (simp add: fixture_defs sys_def)
  from executability_is_checked_on_windows [THEN conjunct2, THEN conjunct2, THEN conjunct1,
      rule_format, OF hs, of "Some 0" "Some []"]
  have s: "Execute_unix linux_env (Some 0) ''/tmp/data.bin''
     [''/tmp/data.bin''] None None 0 (Some []) (answers [writing 0 4343])
     = Some (Returns (True, Some 4343, Some []),
             \<lparr>pending = [],
                calls = [PosixSpawn ''/tmp/data.bin'' False [''/tmp/data.bin'']
                           [''PATH=/usr/bin'']],
                errno = 0\<rparr>)"
    by (simp add: writing_def)
  have hx: "\<not> HAVE_POSIX_SPAWN (linux_env\<lparr>HAVE_POSIX_SPAWN := False\<rparr>) \<and>
      pending (answers [answer 0, failing (- 1) EACCES] :: posix_request os_state)
        = answer 0 # failing (- 1) EACCES # [] \<and>
      ret (answer 0) = 0 \<and> ret (failing (- 1) EACCES) = - 1 \<and>
      sets_err (failing (- 1) EACCES) = Some EACCES"
    by (simp add: fixture_defs)
  from executability_is_checked_on_windows [THEN conjunct2, THEN conjunct2, THEN conjunct2,
      rule_format, OF hx, of "Some 0" "''/tmp/data.bin''" "[''/tmp/data.bin'']" None "Some []"]
  have x: "\<exists>st'. Execute_unix (linux_env\<lparr>HAVE_POSIX_SPAWN := False\<rparr>) (Some 0) ''/tmp/data.bin''
            [''/tmp/data.bin''] None None 0 (Some [])
            (answers [answer 0, failing (- 1) EACCES])
          = Some (Exited 126, st')"
    by (simp add: number_defs)
  from c w f s x show ?thesis by (intro conjI)
qed

subsection \<open>Standard output and standard error with one path\<close>






























end
